theory Spec2Isabelle
  imports Main "HOL-Library.Word"
begin

text \<open>
  A model of the gagara TypeScript client: the error classes of \<open>types.ts\<close>, the
  \<open>GagaraClient\<close> of \<open>client.ts\<close> (upload, fromToken, health) and the \<open>Dataset\<close> handle
  (query, queryFull, schema, meta, isPresent, rename, delete). Every operation is a
  function from the world (pending timers, log of transport calls) to what it threw or
  returned and the world it leaves; the transport is a parameter of the client, as in the
  source.
\<close>

section \<open>Run-time values\<close>

text \<open>
  The client is TypeScript; its type annotations are erased at run time, so whatever
  \<open>res.json()\<close> parses is handled as a dynamic value. \<open>jsval\<close> is the parsed form of a
  JSON text together with \<open>undefined\<close>. Objects keep their properties in order, each key
  once. A number is represented by the string that the language's number-to-string
  conversion gives for it (\<open>1\<close>, \<open>0.5\<close>, \<open>1e+21\<close>), which names the number (negative zero
  apart, which converts to \<open>0\<close>); the client never computes with a parsed number, it only
  passes it on or converts it to a string.
\<close>

datatype jsval =
    JUndefined
  | JNull
  | JBool bool
  | JNum string
  | JStr string
  | JArr "jsval list"
  | JObj "(string \<times> jsval) list"

text \<open>The decimal rendering of a status code in \<open>`${res.status}`\<close>.\<close>

definition digit :: "nat \<Rightarrow> char" where
  "digit d = ''0123456789'' ! d"

fun show_nat :: "nat \<Rightarrow> string" where
  "show_nat n = (if n < 10 then [digit n] else show_nat (n div 10) @ [digit (n mod 10)])"

declare show_nat.simps [simp del]

fun join_comma :: "string list \<Rightarrow> string" where
  "join_comma [] = []"
| "join_comma [s] = s"
| "join_comma (s # t # ss) = s @ '','' @ join_comma (t # ss)"

fun is_nullish :: "jsval \<Rightarrow> bool" where
  "is_nullish JUndefined = True"
| "is_nullish JNull = True"
| "is_nullish _ = False"

section \<open>Errors (types.ts)\<close>

text \<open>
  \<open>GagaraError\<close> and its two subclasses. \<open>cls\<close> is the class the object was constructed
  from, which is what \<open>instanceof\<close> tests; \<open>body\<close> is \<open>JUndefined\<close> when the optional
  constructor argument is left out.
\<close>

datatype error_class = GagaraErrorC | DatasetNotFoundErrorC | QueryErrorC

record gagara_error =
  cls :: error_class
  name :: string
  message :: string
  status :: nat
  body :: jsval

text \<open>
  Everything a call can throw: one of the client's own errors, the rejection of the
  transport (with the transport's reason), the abort raised when the timeout fires, the
  \<open>SyntaxError\<close> of \<open>res.json()\<close> on a body that is not JSON, and the \<open>TypeError\<close> of
  reading a property of null or undefined or of converting to a string an object that
  cannot be converted.
\<close>

datatype exn =
    Thrown gagara_error
  | FetchRejected string
  | AbortError
  | SyntaxError
  | TypeError

text \<open>Sequencing of evaluations that may throw.\<close>

definition and_then :: "exn + 'a \<Rightarrow> ('a \<Rightarrow> exn + 'b) \<Rightarrow> exn + 'b" where
  "and_then r f = (case r of Inl e \<Rightarrow> Inl e | Inr x \<Rightarrow> f x)"

fun collect :: "(exn + 'a) list \<Rightarrow> exn + 'a list" where
  "collect [] = Inr []"
| "collect (Inl e # rs) = Inl e"
| "collect (Inr x # rs) = (case collect rs of Inl e \<Rightarrow> Inl e | Inr xs \<Rightarrow> Inr (x # xs))"

text \<open>
  \<open>ToString\<close> is the conversion a template literal \<open>`${v}`\<close> and the \<open>Error\<close> constructor
  apply to a value. A string is itself. An array is converted by \<open>join\<close>: its elements
  in order, null and undefined as the empty string, separated by commas; converting an
  element may throw. A parsed object is converted by the \<open>toString\<close> it inherits, which
  gives \<open>[object Object]\<close>, unless it has a property of its own named \<open>toString\<close>: a parsed
  value is never a function, the inherited \<open>valueOf\<close> returns the object itself, and the
  conversion throws a \<open>TypeError\<close>.
\<close>

fun ToString :: "jsval \<Rightarrow> exn + string" where
  "ToString JUndefined = Inr ''undefined''"
| "ToString JNull = Inr ''null''"
| "ToString (JBool b) = Inr (if b then ''true'' else ''false'')"
| "ToString (JNum n) = Inr n"
| "ToString (JStr s) = Inr s"
| "ToString (JArr vs) =
     (case collect (map (\<lambda>v. if is_nullish v then Inr [] else ToString v) vs) of
        Inl e \<Rightarrow> Inl e
      | Inr ss \<Rightarrow> Inr (join_comma ss))"
| "ToString (JObj kvs) =
     (if ''toString'' \<in> set (map fst kvs) then Inl TypeError else Inr ''[object Object]'')"

text \<open>
  \<open>super(message)\<close> of \<open>Error\<close>: the message is converted to a string unless it is
  undefined; the conversion may throw.
\<close>

definition Error_message :: "jsval \<Rightarrow> exn + string" where
  "Error_message m = (if m = JUndefined then Inr [] else ToString m)"

text \<open>
  The constructors. Each returns the new error, or throws what the conversion of its
  message threw.
\<close>

definition GagaraError_new :: "jsval \<Rightarrow> nat \<Rightarrow> jsval \<Rightarrow> exn + gagara_error" where
  "GagaraError_new msg st bd =
     and_then (Error_message msg) (\<lambda>m.
       Inr \<lparr>cls = GagaraErrorC, name = ''GagaraError'', message = m, status = st, body = bd\<rparr>)"

definition DatasetNotFoundError_new :: "jsval \<Rightarrow> exn + gagara_error" where
  "DatasetNotFoundError_new tok =
     and_then (ToString tok) (\<lambda>t.
     and_then (GagaraError_new (JStr (''Dataset not found: '' @ t)) 404 JUndefined) (\<lambda>e.
       Inr (e\<lparr>cls := DatasetNotFoundErrorC, name := ''DatasetNotFoundError''\<rparr>)))"

definition QueryError_new :: "jsval \<Rightarrow> jsval \<Rightarrow> exn + gagara_error" where
  "QueryError_new msg bd =
     and_then (GagaraError_new msg 400 bd) (\<lambda>e.
       Inr (e\<lparr>cls := QueryErrorC, name := ''QueryError''\<rparr>))"

text \<open>\<open>e instanceof C\<close>: both subclasses extend \<open>GagaraError\<close>.\<close>

fun instanceof :: "gagara_error \<Rightarrow> error_class \<Rightarrow> bool" where
  "instanceof e GagaraErrorC = True"
| "instanceof e C = (cls e = C)"

text \<open>
  What \<open>throw new C(...)\<close> throws: the new error, or what its constructor threw.
\<close>

definition raise :: "exn + gagara_error \<Rightarrow> exn + 'a" where
  "raise c = (case c of Inl x \<Rightarrow> Inl x | Inr e \<Rightarrow> Inl (Thrown e))"

section \<open>Requests, responses and the transport\<close>

datatype binary = Uint8Array "8 word list" | ArrayBuffer "8 word list"

datatype DataFormat = csv | parquet

fun DataFormat_str :: "DataFormat \<Rightarrow> string" where
  "DataFormat_str csv = ''csv''"
| "DataFormat_str parquet = ''parquet''"

record UploadOptions =
  format :: "DataFormat option"

text \<open>
  A request body is either the raw bytes or \<open>JSON.stringify\<close> of a value; the
  serialisation itself is the platform's and is kept symbolic.
\<close>

datatype request_body = Bytes "8 word list" | JSON_stringify jsval

record RequestInit =
  req_method :: "string option"
  req_headers :: "(string \<times> string) list option"
  req_body :: "request_body option"

text \<open>
  What the transport function is called with: the URL and \<open>{...init, signal}\<close>. The
  signal is identified with the timer that aborts it.
\<close>

record fetch_input =
  url :: string
  init :: RequestInit
  signal :: nat

text \<open>
  A \<open>Response\<close>: its status, and what \<open>res.json()\<close> yields (\<open>None\<close> when the body is
  empty or not JSON, so that \<open>json()\<close> rejects). \<open>ok\<close> is the Fetch property, true for
  statuses 200 to 299 (the test suite's mock transport computes it the same way).
\<close>

record Response =
  res_status :: nat
  res_json :: "jsval option"

definition ok :: "Response \<Rightarrow> bool" where
  "ok res = (200 \<le> res_status res \<and> res_status res < 300)"

text \<open>
  How a call of the transport ends: it resolves with a response, rejects with a reason
  (network failure), or is still pending when the timer of its signal fires, which
  aborts it.
\<close>

datatype fetch_outcome = Resolved Response | Rejected string | Aborted

type_synonym fetch_fn = "fetch_input \<Rightarrow> fetch_outcome"

section \<open>The world: pending timers and the transport log\<close>

text \<open>
  \<open>timers\<close> are the pending timers (identifier and delay in milliseconds), \<open>next_id\<close> the
  identifier \<open>setTimeout\<close> hands out next, and \<open>calls\<close> the invocations of the transport
  in order, each with the timers pending at that moment.
\<close>

record world =
  timers :: "(nat \<times> nat) list"
  next_id :: nat
  calls :: "(fetch_input \<times> (nat \<times> nat) list) list"

definition wf_world :: "world \<Rightarrow> bool" where
  "wf_world w = list_all (\<lambda>t. fst t < next_id w) (timers w)"

definition setTimeout :: "nat \<Rightarrow> world \<Rightarrow> nat \<times> world" where
  "setTimeout delay w =
     (next_id w, w\<lparr>timers := timers w @ [(next_id w, delay)], next_id := Suc (next_id w)\<rparr>)"

definition clearTimeout :: "nat \<Rightarrow> world \<Rightarrow> world" where
  "clearTimeout tid w = w\<lparr>timers := filter (\<lambda>t. fst t \<noteq> tid) (timers w)\<rparr>"

text \<open>A timer that fires is no longer pending; its callback aborts the controller.\<close>

definition timer_fired :: "nat \<Rightarrow> world \<Rightarrow> world" where
  "timer_fired tid w = w\<lparr>timers := filter (\<lambda>t. fst t \<noteq> tid) (timers w)\<rparr>"

text \<open>
  An asynchronous computation takes the world and returns what it threw (\<open>Inl\<close>) or
  returned (\<open>Inr\<close>), with the world it leaves.
\<close>

type_synonym 'a io = "world \<Rightarrow> (exn + 'a) \<times> world"

definition return :: "'a \<Rightarrow> 'a io" where
  "return x = (\<lambda>w. (Inr x, w))"

definition throw :: "exn \<Rightarrow> 'a io" where
  "throw e = (\<lambda>w. (Inl e, w))"

definition throw_new :: "exn + gagara_error \<Rightarrow> 'a io" where
  "throw_new c = (\<lambda>w. (raise c, w))"

text \<open>An evaluation that may throw but leaves the world alone.\<close>

definition lift :: "exn + 'a \<Rightarrow> 'a io" where
  "lift r = (\<lambda>w. (r, w))"

definition bind :: "'a io \<Rightarrow> ('a \<Rightarrow> 'b io) \<Rightarrow> 'b io" where
  "bind m f = (\<lambda>w. case m w of (Inl e, w') \<Rightarrow> (Inl e, w') | (Inr x, w') \<Rightarrow> f x w')"

definition try_catch :: "'a io \<Rightarrow> (exn \<Rightarrow> 'a io) \<Rightarrow> 'a io" where
  "try_catch m h = (\<lambda>w. case m w of (Inl e, w') \<Rightarrow> h e w' | (Inr x, w') \<Rightarrow> (Inr x, w'))"

definition try_finally :: "'a io \<Rightarrow> (world \<Rightarrow> world) \<Rightarrow> 'a io" where
  "try_finally m cleanup = (\<lambda>w. case m w of (r, w') \<Rightarrow> (r, cleanup w'))"

text \<open>\<open>await fetchFn(url, init)\<close>: the call is logged, then ends as the transport decides.\<close>

definition await_fetch :: "fetch_fn \<Rightarrow> fetch_input \<Rightarrow> Response io" where
  "await_fetch f inp = (\<lambda>w.
     let w1 = w\<lparr>calls := calls w @ [(inp, timers w)]\<rparr> in
     case f inp of
       Resolved res \<Rightarrow> (Inr res, w1)
     | Rejected reason \<Rightarrow> (Inl (FetchRejected reason), w1)
     | Aborted \<Rightarrow> (Inl AbortError, timer_fired (signal inp) w1))"

text \<open>\<open>await res.json()\<close>\<close>

definition json :: "Response \<Rightarrow> jsval io" where
  "json res = (case res_json res of None \<Rightarrow> throw SyntaxError | Some v \<Rightarrow> return v)"

text \<open>
  \<open>v.k\<close> for the property names the client reads (\<open>token\<close>, \<open>rows\<close>, \<open>columns\<close>,
  \<open>isPresent\<close>, \<open>error\<close>), none of which is a built-in property of strings, numbers,
  booleans or arrays: reading from null or undefined throws, a parsed object gives the
  property or undefined, every other value gives undefined.
\<close>

fun lookup_prop :: "jsval \<Rightarrow> string \<Rightarrow> jsval" where
  "lookup_prop (JObj kvs) k = (case map_of kvs k of None \<Rightarrow> JUndefined | Some v \<Rightarrow> v)"
| "lookup_prop _ k = JUndefined"

definition get_prop :: "jsval \<Rightarrow> string \<Rightarrow> jsval io" where
  "get_prop v k = (if is_nullish v then throw TypeError else return (lookup_prop v k))"

text \<open>\<open>v?.k\<close> and \<open>a ?? b\<close>\<close>

definition opt_chain :: "jsval \<Rightarrow> string \<Rightarrow> jsval" where
  "opt_chain v k = (if is_nullish v then JUndefined else lookup_prop v k)"

definition nullish_or :: "jsval \<Rightarrow> jsval \<Rightarrow> jsval" where
  "nullish_or a b = (if is_nullish a then b else a)"

text \<open>\<open>{...init, signal}\<close> with \<open>init\<close> possibly undefined.\<close>

definition spread_init :: "RequestInit option \<Rightarrow> RequestInit" where
  "spread_init i = (case i of None \<Rightarrow> \<lparr>req_method = None, req_headers = None, req_body = None\<rparr>
                            | Some r \<Rightarrow> r)"

section \<open>The client (client.ts)\<close>

record ClientOptions =
  opt_baseUrl :: string
  opt_fetch :: "fetch_fn option"
  opt_timeout :: "nat option"

record GagaraClient =
  c_baseUrl :: string
  c_fetch :: fetch_fn
  c_timeout :: nat

record Dataset =
  token :: jsval
  d_baseUrl :: string
  d_fetch :: fetch_fn
  d_timeout :: nat

text \<open>\<open>baseUrl.replace(/\/$/, '')\<close>: one slash at the very end is removed.\<close>

definition strip_trailing_slash :: "string \<Rightarrow> string" where
  "strip_trailing_slash s = (if s \<noteq> [] \<and> last s = CHR ''/'' then butlast s else s)"

text \<open>The constructor; \<open>global_fetch\<close> stands for the platform's \<open>globalThis.fetch\<close>.\<close>

definition GagaraClient_new :: "fetch_fn \<Rightarrow> ClientOptions \<Rightarrow> GagaraClient" where
  "GagaraClient_new global_fetch options =
     \<lparr>c_baseUrl = strip_trailing_slash (opt_baseUrl options),
      c_fetch = (case opt_fetch options of None \<Rightarrow> global_fetch | Some f \<Rightarrow> f),
      c_timeout = (case opt_timeout options of None \<Rightarrow> 30000 | Some t \<Rightarrow> t)\<rparr>"

definition Dataset_new :: "jsval \<Rightarrow> string \<Rightarrow> fetch_fn \<Rightarrow> nat \<Rightarrow> Dataset" where
  "Dataset_new tok baseUrl fetchFn tmo =
     \<lparr>token = tok, d_baseUrl = baseUrl, d_fetch = fetchFn, d_timeout = tmo\<rparr>"

text \<open>
  \<open>GagaraClient.#request\<close>: arm the timer, call the transport inside \<open>try\<close>, clear the
  timer in \<open>finally\<close>.
\<close>

definition client_request :: "GagaraClient \<Rightarrow> string \<Rightarrow> RequestInit option \<Rightarrow> Response io" where
  "client_request c path i = (\<lambda>w.
     case setTimeout (c_timeout c) w of (timeoutId, w1) \<Rightarrow>
       try_finally
         (await_fetch (c_fetch c)
            \<lparr>url = c_baseUrl c @ path, init = spread_init i, signal = timeoutId\<rparr>)
         (clearTimeout timeoutId) w1)"

definition client_parseError :: "Response \<Rightarrow> jsval io" where
  "client_parseError res = try_catch (json res) (\<lambda>e. return JUndefined)"

definition upload :: "GagaraClient \<Rightarrow> binary \<Rightarrow> string \<Rightarrow> UploadOptions \<Rightarrow> Dataset io" where
  "upload c data nm options =
     (let fmt = (case format options of None \<Rightarrow> csv | Some f \<Rightarrow> f);
          bytes = (case data of ArrayBuffer bs \<Rightarrow> bs | Uint8Array bs \<Rightarrow> bs)
      in bind (client_request c ''/catalog''
                 (Some \<lparr>req_method = Some ''POST'',
                        req_headers = Some [(''Content-Type'', ''application/octet-stream''),
                                        (''X-Gagara-Name'', nm),
                                        (''X-Gagara-Format'', DataFormat_str fmt)],
                        req_body = Some (Bytes bytes)\<rparr>))
           (\<lambda>res.
              if \<not> ok res then
                bind (client_parseError res) (\<lambda>errorBody.
                  throw_new (GagaraError_new
                    (nullish_or (opt_chain errorBody ''error'')
                       (JStr (''Upload failed: '' @ show_nat (res_status res))))
                    (res_status res)
                    errorBody))
              else
                bind (json res) (\<lambda>result.
                bind (get_prop result ''token'') (\<lambda>tok.
                  return (Dataset_new tok (c_baseUrl c) (c_fetch c) (c_timeout c))))))"

text \<open>\<open>fromToken\<close> is synchronous: it only runs the \<open>Dataset\<close> constructor.\<close>

definition fromToken :: "GagaraClient \<Rightarrow> string \<Rightarrow> Dataset io" where
  "fromToken c tok = return (Dataset_new (JStr tok) (c_baseUrl c) (c_fetch c) (c_timeout c))"

definition health :: "GagaraClient \<Rightarrow> bool io" where
  "health c =
     try_catch (bind (client_request c ''/health'' None) (\<lambda>res. return (ok res)))
               (\<lambda>e. return False)"

section \<open>The dataset handle (dataset.ts)\<close>

text \<open>
  Every operation of the handle puts the token into a template literal (the URL path, or
  the \<open>Authorization\<close> header of the two queries) while it builds the arguments of
  \<open>#request\<close>, so the token is converted to a string, which may throw, before the
  request is made.
\<close>

definition dataset_request :: "Dataset \<Rightarrow> string \<Rightarrow> RequestInit option \<Rightarrow> Response io" where
  "dataset_request ds path i = (\<lambda>w.
     case setTimeout (d_timeout ds) w of (timeoutId, w1) \<Rightarrow>
       try_finally
         (await_fetch (d_fetch ds)
            \<lparr>url = d_baseUrl ds @ path, init = spread_init i, signal = timeoutId\<rparr>)
         (clearTimeout timeoutId) w1)"

definition dataset_parseError :: "Response \<Rightarrow> jsval io" where
  "dataset_parseError res = try_catch (json res) (\<lambda>e. return JUndefined)"

definition query :: "Dataset \<Rightarrow> string \<Rightarrow> jsval io" where
  "query ds sql =
     bind (lift (ToString (token ds))) (\<lambda>t.
     bind (dataset_request ds ''/query''
             (Some \<lparr>req_method = Some ''POST'',
                    req_headers = Some [(''Content-Type'', ''application/json''),
                                    (''Authorization'', ''Bearer '' @ t)],
                    req_body = Some (JSON_stringify (JObj [(''sql'', JStr sql)]))\<rparr>))
       (\<lambda>res.
          if \<not> ok res then
            bind (dataset_parseError res) (\<lambda>bd.
              if res_status res = 404 then throw_new (DatasetNotFoundError_new (token ds))
              else throw_new (QueryError_new
                     (nullish_or (opt_chain bd ''error'') (JStr ''Query failed'')) bd))
          else
            bind (json res) (\<lambda>data. get_prop data ''rows'')))"

definition queryFull :: "Dataset \<Rightarrow> string \<Rightarrow> jsval io" where
  "queryFull ds sql =
     bind (lift (ToString (token ds))) (\<lambda>t.
     bind (dataset_request ds ''/query''
             (Some \<lparr>req_method = Some ''POST'',
                    req_headers = Some [(''Content-Type'', ''application/json''),
                                    (''Authorization'', ''Bearer '' @ t)],
                    req_body = Some (JSON_stringify (JObj [(''sql'', JStr sql)]))\<rparr>))
       (\<lambda>res.
          if \<not> ok res then
            bind (dataset_parseError res) (\<lambda>bd.
              if res_status res = 404 then throw_new (DatasetNotFoundError_new (token ds))
              else throw_new (QueryError_new
                     (nullish_or (opt_chain bd ''error'') (JStr ''Query failed'')) bd))
          else json res))"

definition schema :: "Dataset \<Rightarrow> jsval io" where
  "schema ds =
     bind (lift (ToString (token ds))) (\<lambda>t.
     bind (dataset_request ds (''/catalog/'' @ t @ ''/schema'') None)
       (\<lambda>res.
          if \<not> ok res then
            (if res_status res = 404 then throw_new (DatasetNotFoundError_new (token ds))
             else throw_new (GagaraError_new (JStr ''Failed to get schema'')
                                (res_status res) JUndefined))
          else
            bind (json res) (\<lambda>data. get_prop data ''columns'')))"

definition meta :: "Dataset \<Rightarrow> jsval io" where
  "meta ds =
     bind (lift (ToString (token ds))) (\<lambda>t.
     bind (dataset_request ds (''/catalog/'' @ t @ ''/meta'') None)
       (\<lambda>res.
          if \<not> ok res then
            (if res_status res = 404 then throw_new (DatasetNotFoundError_new (token ds))
             else throw_new (GagaraError_new (JStr ''Failed to get metadata'')
                                (res_status res) JUndefined))
          else json res))"

definition isPresent :: "Dataset \<Rightarrow> jsval io" where
  "isPresent ds =
     bind (lift (ToString (token ds))) (\<lambda>t.
     bind (dataset_request ds (''/catalog/'' @ t @ ''/is-present'') None)
       (\<lambda>res.
          if \<not> ok res then
            throw_new (GagaraError_new (JStr ''Failed to check presence'')
                         (res_status res) JUndefined)
          else
            bind (json res) (\<lambda>data. get_prop data ''isPresent'')))"

definition rename :: "Dataset \<Rightarrow> string \<Rightarrow> unit io" where
  "rename ds newName =
     bind (lift (ToString (token ds))) (\<lambda>t.
     bind (dataset_request ds (''/catalog/'' @ t @ ''/rename'')
             (Some \<lparr>req_method = Some ''POST'',
                    req_headers = Some [(''Content-Type'', ''application/json'')],
                    req_body = Some (JSON_stringify (JObj [(''new_name'', JStr newName)]))\<rparr>))
       (\<lambda>res.
          if \<not> ok res then
            (if res_status res = 404 then throw_new (DatasetNotFoundError_new (token ds))
             else throw_new (GagaraError_new (JStr ''Failed to rename'')
                                (res_status res) JUndefined))
          else return ()))"

definition delete :: "Dataset \<Rightarrow> unit io" where
  "delete ds =
     bind (lift (ToString (token ds))) (\<lambda>t.
     bind (dataset_request ds (''/catalog/'' @ t)
             (Some \<lparr>req_method = Some ''DELETE'', req_headers = None, req_body = None\<rparr>))
       (\<lambda>res.
          if \<not> ok res then
            (if res_status res = 404 then throw_new (DatasetNotFoundError_new (token ds))
             else throw_new (GagaraError_new (JStr ''Failed to delete'')
                                (res_status res) JUndefined))
          else return ()))"

section \<open>Observing a call\<close>

text \<open>
  \<open>reply f m w\<close> is how the transport \<open>f\<close> ends the request that the computation \<open>m\<close>,
  started in world \<open>w\<close>, issued last; \<open>None\<close> when \<open>m\<close> added no call to the log.
\<close>

definition reply :: "fetch_fn \<Rightarrow> 'a io \<Rightarrow> world \<Rightarrow> fetch_outcome option" where
  "reply f m w =
     (let cs = calls (snd (m w)) in
        if length cs \<le> length (calls w) then None else Some (f (fst (last cs))))"

text \<open>A transport that ends every call the same way, as a test double does.\<close>

definition stub_fetch :: "fetch_outcome \<Rightarrow> fetch_fn" where
  "stub_fetch out = (\<lambda>inp. out)"

text \<open>What \<open>parseError\<close> yields for a response: the parsed body, or undefined.\<close>

definition parsed :: "Response \<Rightarrow> jsval" where
  "parsed res = (case res_json res of None \<Rightarrow> JUndefined | Some v \<Rightarrow> v)"

text \<open>
  \<open>timer_scoped tmo m w\<close>: running \<open>m\<close> from \<open>w\<close> invokes the transport exactly once, the
  timer of that call's signal is fresh and pending with delay \<open>tmo\<close> at the invocation,
  and the timers pending afterwards are those pending before.
\<close>

definition timer_scoped :: "nat \<Rightarrow> 'a io \<Rightarrow> world \<Rightarrow> bool" where
  "timer_scoped tmo m w =
     (let w' = snd (m w) in
        timers w' = timers w \<and>
        length (calls w') = Suc (length (calls w)) \<and>
        butlast (calls w') = calls w \<and>
        (case last (calls w') of (inp, pending) \<Rightarrow>
           (signal inp, tmo) \<in> set pending \<and> signal inp \<notin> fst ` set (timers w)))"

text \<open>
  Whether a value converts to a string. A string does, so the token of every handle made
  by \<open>fromToken\<close> does.
\<close>

definition convertible :: "jsval \<Rightarrow> bool" where
  "convertible v = (case ToString v of Inl e \<Rightarrow> False | Inr t \<Rightarrow> True)"

text \<open>The not-found error for a handle whose token converts to the string \<open>t\<close>.\<close>

definition not_found :: "string \<Rightarrow> gagara_error" where
  "not_found t =
     \<lparr>cls = DatasetNotFoundErrorC, name = ''DatasetNotFoundError'',
      message = ''Dataset not found: '' @ t, status = 404, body = JUndefined\<rparr>"

text \<open>A fresh world: no timer pending, no call made.\<close>

definition world0 :: world where
  "world0 = \<lparr>timers = [], next_id = 0, calls = []\<rparr>"

text \<open>
  Three notions the statements about a call share: the thrown or returned value that an
  outcome of the transport settles to, the argument \<open>#request\<close> passes to the transport
  when started in \<open>w\<close>, and the world that one complete \<open>#request\<close> leaves.
\<close>

definition settle :: "fetch_outcome \<Rightarrow> exn + Response" where
  "settle out = (case out of Resolved res \<Rightarrow> Inr res
                           | Rejected reason \<Rightarrow> Inl (FetchRejected reason)
                           | Aborted \<Rightarrow> Inl AbortError)"

definition sent :: "string \<Rightarrow> string \<Rightarrow> RequestInit option \<Rightarrow> world \<Rightarrow> fetch_input" where
  "sent baseUrl path i w = \<lparr>url = baseUrl @ path, init = spread_init i, signal = next_id w\<rparr>"

definition after_call :: "fetch_input \<Rightarrow> nat \<Rightarrow> world \<Rightarrow> world" where
  "after_call inp tmo w =
     w\<lparr>timers := filter (\<lambda>t. fst t \<noteq> next_id w) (timers w),
       next_id := Suc (next_id w),
       calls := calls w @ [(inp, timers w @ [(next_id w, tmo)])]\<rparr>"

section \<open>Conversions\<close>

lemma collect_fails: "collect rs = Inl e \<Longrightarrow> Inl e \<in> set rs"
  by (induction rs rule: collect.induct) (auto split: sum.splits)

lemma ToString_fails: "ToString v = Inl e \<Longrightarrow> e = TypeError"
proof (induction v arbitrary: e rule: ToString.induct)
  case (6 vs)
  from "6.prems" have "collect (map (\<lambda>v. if is_nullish v then Inr [] else ToString v) vs) = Inl e"
    by (simp split: sum.splits)
  then have "Inl e \<in> set (map (\<lambda>v. if is_nullish v then Inr [] else ToString v) vs)"
    by (rule collect_fails)
  then obtain v where "v \<in> set vs" "\<not> is_nullish v" "ToString v = Inl e"
    by (auto split: if_splits)
  with "6.IH" show ?case
    by blast
qed (simp_all split: if_splits)

lemma ToString_cases: "ToString v = Inl TypeError \<or> (\<exists>t. ToString v = Inr t)"
  by (cases "ToString v") (auto dest: ToString_fails)

lemma GagaraError_new_str:
  "GagaraError_new (JStr s) st bd =
     Inr \<lparr>cls = GagaraErrorC, name = ''GagaraError'', message = s, status = st, body = bd\<rparr>"
  by (simp add: GagaraError_new_def Error_message_def and_then_def)

lemma DatasetNotFoundError_new_str:
  "ToString tok = Inr t \<Longrightarrow>
   DatasetNotFoundError_new tok =
     Inr \<lparr>cls = DatasetNotFoundErrorC, name = ''DatasetNotFoundError'',
          message = ''Dataset not found: '' @ t, status = 404, body = JUndefined\<rparr>"
  by (simp add: DatasetNotFoundError_new_def GagaraError_new_str and_then_def)

lemma opt_chain_lookup: "opt_chain v k = lookup_prop v k"
  by (cases v) (simp_all add: opt_chain_def)

lemma Error_message_nullish_or:
  "Error_message (nullish_or a (JStr d)) = (if is_nullish a then Inr d else ToString a)"
  by (cases a) (simp_all add: Error_message_def nullish_or_def)

lemma GagaraError_new_nullish_or:
  "GagaraError_new (nullish_or a (JStr d)) st bd =
     (if is_nullish a
      then Inr \<lparr>cls = GagaraErrorC, name = ''GagaraError'', message = d, status = st, body = bd\<rparr>
      else case ToString a of
             Inl x \<Rightarrow> Inl TypeError
           | Inr m \<Rightarrow> Inr \<lparr>cls = GagaraErrorC, name = ''GagaraError'', message = m,
                           status = st, body = bd\<rparr>)"
  by (auto simp add: GagaraError_new_def Error_message_nullish_or and_then_def
        split: sum.splits dest: ToString_fails)

lemma QueryError_new_nullish_or:
  "QueryError_new (nullish_or a (JStr d)) bd =
     (if is_nullish a
      then Inr \<lparr>cls = QueryErrorC, name = ''QueryError'', message = d, status = 400, body = bd\<rparr>
      else case ToString a of
             Inl x \<Rightarrow> Inl TypeError
           | Inr m \<Rightarrow> Inr \<lparr>cls = QueryErrorC, name = ''QueryError'', message = m,
                           status = 400, body = bd\<rparr>)"
  by (simp add: QueryError_new_def GagaraError_new_nullish_or and_then_def split: sum.splits)

section \<open>One request\<close>

lemma dataset_request_run:
  "dataset_request ds path i w =
     (settle (d_fetch ds (sent (d_baseUrl ds) path i w)),
      after_call (sent (d_baseUrl ds) path i w) (d_timeout ds) w)"
  by (cases "d_fetch ds (sent (d_baseUrl ds) path i w)")
     (simp_all add: dataset_request_def setTimeout_def try_finally_def await_fetch_def
        clearTimeout_def timer_fired_def settle_def after_call_def sent_def Let_def)

lemma client_request_run:
  "client_request c path i w =
     (settle (c_fetch c (sent (c_baseUrl c) path i w)),
      after_call (sent (c_baseUrl c) path i w) (c_timeout c) w)"
  by (cases "c_fetch c (sent (c_baseUrl c) path i w)")
     (simp_all add: client_request_def setTimeout_def try_finally_def await_fetch_def
        clearTimeout_def timer_fired_def settle_def after_call_def sent_def Let_def)

lemma reply_after_call: "snd (m w) = after_call inp tmo w \<Longrightarrow> reply f m w = Some (f inp)"
  by (simp add: reply_def after_call_def)

lemma reply_unchanged: "snd (m w) = w \<Longrightarrow> reply f m w = None"
  by (simp add: reply_def)

lemma filter_fresh: "list_all (\<lambda>t. fst t < (n::nat)) ts \<Longrightarrow> filter (\<lambda>t. fst t \<noteq> n) ts = ts"
  by (induction ts) auto

lemma fresh_not_pending: "list_all (\<lambda>t. fst t < (n::nat)) ts \<Longrightarrow> n \<notin> fst ` set ts"
  by (induction ts) auto

lemma after_call_scoped:
  "wf_world w \<Longrightarrow> snd (m w) = after_call (sent b path i w) tmo w \<Longrightarrow> timer_scoped tmo m w"
  by (simp add: timer_scoped_def after_call_def sent_def wf_world_def filter_fresh
        fresh_not_pending Let_def)

lemma after_call_wf: "wf_world w \<Longrightarrow> wf_world (after_call inp tmo w)"
  by (simp add: wf_world_def after_call_def filter_fresh list_all_iff) (meson less_Suc_eq)

lemmas io_defs = bind_def throw_def return_def try_catch_def json_def get_prop_def
  dataset_parseError_def client_parseError_def settle_def throw_new_def lift_def

lemma reply_cases:
  "snd (m w) = (case r of Inl e \<Rightarrow> w | Inr t \<Rightarrow> after_call (inp t) tmo w) \<Longrightarrow>
   reply f m w = (case r of Inl e \<Rightarrow> None | Inr t \<Rightarrow> Some (f (inp t)))"
  by (cases r) (simp_all add: reply_after_call reply_unchanged)

section \<open>What each operation sends and leaves\<close>

lemma upload_world:
  "snd (upload c data nm options w) =
     after_call (sent (c_baseUrl c) ''/catalog''
       (Some \<lparr>req_method = Some ''POST'',
              req_headers = Some [(''Content-Type'', ''application/octet-stream''),
                              (''X-Gagara-Name'', nm),
                              (''X-Gagara-Format'',
                               DataFormat_str (case format options of None \<Rightarrow> csv | Some f \<Rightarrow> f))],
              req_body = Some (Bytes (case data of ArrayBuffer bs \<Rightarrow> bs | Uint8Array bs \<Rightarrow> bs))\<rparr>) w)
       (c_timeout c) w"
  by (simp add: upload_def client_request_run io_defs Let_def
           split: fetch_outcome.splits option.splits)

lemma health_world:
  "snd (health c w) = after_call (sent (c_baseUrl c) ''/health'' None w) (c_timeout c) w"
  by (simp add: health_def client_request_run io_defs split: fetch_outcome.splits)

lemma query_world:
  "snd (query ds sql w) =
     (case ToString (token ds) of
        Inl e \<Rightarrow> w
      | Inr t \<Rightarrow>
          after_call (sent (d_baseUrl ds) ''/query''
            (Some \<lparr>req_method = Some ''POST'',
                   req_headers = Some [(''Content-Type'', ''application/json''),
                                       (''Authorization'', ''Bearer '' @ t)],
                   req_body = Some (JSON_stringify (JObj [(''sql'', JStr sql)]))\<rparr>) w)
            (d_timeout ds) w)"
  by (simp add: query_def dataset_request_run io_defs
           split: sum.splits fetch_outcome.splits option.splits)

lemma queryFull_world:
  "snd (queryFull ds sql w) =
     (case ToString (token ds) of
        Inl e \<Rightarrow> w
      | Inr t \<Rightarrow>
          after_call (sent (d_baseUrl ds) ''/query''
            (Some \<lparr>req_method = Some ''POST'',
                   req_headers = Some [(''Content-Type'', ''application/json''),
                                       (''Authorization'', ''Bearer '' @ t)],
                   req_body = Some (JSON_stringify (JObj [(''sql'', JStr sql)]))\<rparr>) w)
            (d_timeout ds) w)"
  by (simp add: queryFull_def dataset_request_run io_defs
           split: sum.splits fetch_outcome.splits option.splits)

lemma schema_world:
  "snd (schema ds w) =
     (case ToString (token ds) of
        Inl e \<Rightarrow> w
      | Inr t \<Rightarrow>
          after_call (sent (d_baseUrl ds) (''/catalog/'' @ t @ ''/schema'') None w)
            (d_timeout ds) w)"
  by (simp add: schema_def dataset_request_run io_defs
           split: sum.splits fetch_outcome.splits option.splits)

lemma meta_world:
  "snd (meta ds w) =
     (case ToString (token ds) of
        Inl e \<Rightarrow> w
      | Inr t \<Rightarrow>
          after_call (sent (d_baseUrl ds) (''/catalog/'' @ t @ ''/meta'') None w)
            (d_timeout ds) w)"
  by (simp add: meta_def dataset_request_run io_defs
           split: sum.splits fetch_outcome.splits option.splits)

lemma isPresent_world:
  "snd (isPresent ds w) =
     (case ToString (token ds) of
        Inl e \<Rightarrow> w
      | Inr t \<Rightarrow>
          after_call (sent (d_baseUrl ds) (''/catalog/'' @ t @ ''/is-present'') None w)
            (d_timeout ds) w)"
  by (simp add: isPresent_def dataset_request_run io_defs
           split: sum.splits fetch_outcome.splits option.splits)

lemma rename_world:
  "snd (rename ds newName w) =
     (case ToString (token ds) of
        Inl e \<Rightarrow> w
      | Inr t \<Rightarrow>
          after_call (sent (d_baseUrl ds) (''/catalog/'' @ t @ ''/rename'')
            (Some \<lparr>req_method = Some ''POST'',
                   req_headers = Some [(''Content-Type'', ''application/json'')],
                   req_body = Some (JSON_stringify (JObj [(''new_name'', JStr newName)]))\<rparr>) w)
            (d_timeout ds) w)"
  by (simp add: rename_def dataset_request_run io_defs split: sum.splits fetch_outcome.splits)

lemma delete_world:
  "snd (delete ds w) =
     (case ToString (token ds) of
        Inl e \<Rightarrow> w
      | Inr t \<Rightarrow>
          after_call (sent (d_baseUrl ds) (''/catalog/'' @ t)
            (Some \<lparr>req_method = Some ''DELETE'', req_headers = None, req_body = None\<rparr>) w)
            (d_timeout ds) w)"
  by (simp add: delete_def dataset_request_run io_defs split: sum.splits fetch_outcome.splits)

section \<open>What each operation yields, by the transport's reply\<close>

lemma upload_run:
  "fst (upload c data nm options w) =
     (case reply (c_fetch c) (upload c data nm options) w of
        None \<Rightarrow> Inl TypeError
      | Some (Resolved r) \<Rightarrow>
          if ok r then
            (case res_json r of
               None \<Rightarrow> Inl SyntaxError
             | Some v \<Rightarrow> if is_nullish v then Inl TypeError
                         else Inr (Dataset_new (lookup_prop v ''token'')
                                     (c_baseUrl c) (c_fetch c) (c_timeout c)))
          else raise (GagaraError_new
                 (nullish_or (lookup_prop (parsed r) ''error'')
                    (JStr (''Upload failed: '' @ show_nat (res_status r))))
                 (res_status r) (parsed r))
      | Some (Rejected reason) \<Rightarrow> Inl (FetchRejected reason)
      | Some Aborted \<Rightarrow> Inl AbortError)"
  unfolding reply_after_call [OF upload_world]
  by (simp add: upload_def client_request_run io_defs parsed_def opt_chain_lookup Let_def
           split: fetch_outcome.splits option.splits)

lemma health_run:
  "fst (health c w) =
     Inr (case reply (c_fetch c) (health c) w of
            Some (Resolved r) \<Rightarrow> ok r
          | other \<Rightarrow> False)"
  unfolding reply_after_call [OF health_world]
  by (simp add: health_def client_request_run io_defs split: fetch_outcome.splits)

lemma query_run:
  "fst (query ds sql w) =
     (case reply (d_fetch ds) (query ds sql) w of
        None \<Rightarrow> Inl TypeError
      | Some (Resolved r) \<Rightarrow>
          if ok r then
            (case res_json r of
               None \<Rightarrow> Inl SyntaxError
             | Some v \<Rightarrow> if is_nullish v then Inl TypeError else Inr (lookup_prop v ''rows''))
          else raise
                 (if res_status r = 404 then DatasetNotFoundError_new (token ds)
                  else QueryError_new
                         (nullish_or (lookup_prop (parsed r) ''error'') (JStr ''Query failed''))
                         (parsed r))
      | Some (Rejected reason) \<Rightarrow> Inl (FetchRejected reason)
      | Some Aborted \<Rightarrow> Inl AbortError)"
  unfolding reply_cases [OF query_world]
  by (cases "ToString (token ds)")
     (auto simp add: query_def dataset_request_run io_defs parsed_def opt_chain_lookup
           split: fetch_outcome.splits option.splits dest: ToString_fails)

lemma queryFull_run:
  "fst (queryFull ds sql w) =
     (case reply (d_fetch ds) (queryFull ds sql) w of
        None \<Rightarrow> Inl TypeError
      | Some (Resolved r) \<Rightarrow>
          if ok r then (case res_json r of None \<Rightarrow> Inl SyntaxError | Some v \<Rightarrow> Inr v)
          else raise
                 (if res_status r = 404 then DatasetNotFoundError_new (token ds)
                  else QueryError_new
                         (nullish_or (lookup_prop (parsed r) ''error'') (JStr ''Query failed''))
                         (parsed r))
      | Some (Rejected reason) \<Rightarrow> Inl (FetchRejected reason)
      | Some Aborted \<Rightarrow> Inl AbortError)"
  unfolding reply_cases [OF queryFull_world]
  by (cases "ToString (token ds)")
     (auto simp add: queryFull_def dataset_request_run io_defs parsed_def opt_chain_lookup
           split: fetch_outcome.splits option.splits dest: ToString_fails)

lemma schema_run:
  "fst (schema ds w) =
     (case reply (d_fetch ds) (schema ds) w of
        None \<Rightarrow> Inl TypeError
      | Some (Resolved r) \<Rightarrow>
          if ok r then
            (case res_json r of
               None \<Rightarrow> Inl SyntaxError
             | Some v \<Rightarrow> if is_nullish v then Inl TypeError else Inr (lookup_prop v ''columns''))
          else raise
                 (if res_status r = 404 then DatasetNotFoundError_new (token ds)
                  else GagaraError_new (JStr ''Failed to get schema'') (res_status r) JUndefined)
      | Some (Rejected reason) \<Rightarrow> Inl (FetchRejected reason)
      | Some Aborted \<Rightarrow> Inl AbortError)"
  unfolding reply_cases [OF schema_world]
  by (cases "ToString (token ds)")
     (auto simp add: schema_def dataset_request_run io_defs
           split: fetch_outcome.splits option.splits dest: ToString_fails)

lemma meta_run:
  "fst (meta ds w) =
     (case reply (d_fetch ds) (meta ds) w of
        None \<Rightarrow> Inl TypeError
      | Some (Resolved r) \<Rightarrow>
          if ok r then (case res_json r of None \<Rightarrow> Inl SyntaxError | Some v \<Rightarrow> Inr v)
          else raise
                 (if res_status r = 404 then DatasetNotFoundError_new (token ds)
                  else GagaraError_new (JStr ''Failed to get metadata'') (res_status r)
                         JUndefined)
      | Some (Rejected reason) \<Rightarrow> Inl (FetchRejected reason)
      | Some Aborted \<Rightarrow> Inl AbortError)"
  unfolding reply_cases [OF meta_world]
  by (cases "ToString (token ds)")
     (auto simp add: meta_def dataset_request_run io_defs
           split: fetch_outcome.splits option.splits dest: ToString_fails)

lemma isPresent_run:
  "fst (isPresent ds w) =
     (case reply (d_fetch ds) (isPresent ds) w of
        None \<Rightarrow> Inl TypeError
      | Some (Resolved r) \<Rightarrow>
          if ok r then
            (case res_json r of
               None \<Rightarrow> Inl SyntaxError
             | Some v \<Rightarrow> if is_nullish v then Inl TypeError
                         else Inr (lookup_prop v ''isPresent''))
          else raise (GagaraError_new (JStr ''Failed to check presence'') (res_status r)
                        JUndefined)
      | Some (Rejected reason) \<Rightarrow> Inl (FetchRejected reason)
      | Some Aborted \<Rightarrow> Inl AbortError)"
  unfolding reply_cases [OF isPresent_world]
  by (cases "ToString (token ds)")
     (auto simp add: isPresent_def dataset_request_run io_defs
           split: fetch_outcome.splits option.splits dest: ToString_fails)

lemma rename_run:
  "fst (rename ds newName w) =
     (case reply (d_fetch ds) (rename ds newName) w of
        None \<Rightarrow> Inl TypeError
      | Some (Resolved r) \<Rightarrow>
          if ok r then Inr ()
          else raise
                 (if res_status r = 404 then DatasetNotFoundError_new (token ds)
                  else GagaraError_new (JStr ''Failed to rename'') (res_status r) JUndefined)
      | Some (Rejected reason) \<Rightarrow> Inl (FetchRejected reason)
      | Some Aborted \<Rightarrow> Inl AbortError)"
  unfolding reply_cases [OF rename_world]
  by (cases "ToString (token ds)")
     (auto simp add: rename_def dataset_request_run io_defs
           split: fetch_outcome.splits dest: ToString_fails)

lemma delete_run:
  "fst (delete ds w) =
     (case reply (d_fetch ds) (delete ds) w of
        None \<Rightarrow> Inl TypeError
      | Some (Resolved r) \<Rightarrow>
          if ok r then Inr ()
          else raise
                 (if res_status r = 404 then DatasetNotFoundError_new (token ds)
                  else GagaraError_new (JStr ''Failed to delete'') (res_status r) JUndefined)
      | Some (Rejected reason) \<Rightarrow> Inl (FetchRejected reason)
      | Some Aborted \<Rightarrow> Inl AbortError)"
  unfolding reply_cases [OF delete_world]
  by (cases "ToString (token ds)")
     (auto simp add: delete_def dataset_request_run io_defs
           split: fetch_outcome.splits dest: ToString_fails)

section \<open>What is raised\<close>

lemma Error_message_fails: "Error_message m = Inl e \<Longrightarrow> e = TypeError"
  by (auto simp add: Error_message_def split: if_splits dest: ToString_fails)

lemma raise_Inr: "raise (Inr e) = Inl (Thrown e)"
  by (simp add: raise_def)

lemma raise_Inl: "raise (Inl x) = Inl x"
  by (simp add: raise_def)

lemma not_found_raised:
  "ToString tok = Inr t \<Longrightarrow>
   raise (DatasetNotFoundError_new tok) =
     Inl (Thrown \<lparr>cls = DatasetNotFoundErrorC, name = ''DatasetNotFoundError'',
                   message = ''Dataset not found: '' @ t, status = 404, body = JUndefined\<rparr>)"
  by (simp add: DatasetNotFoundError_new_str raise_def)

lemma generic_error_raised:
  "raise (GagaraError_new (JStr s) st bd) =
     Inl (Thrown \<lparr>cls = GagaraErrorC, name = ''GagaraError'', message = s, status = st,
                   body = bd\<rparr>)"
  by (simp add: GagaraError_new_str raise_def)

lemma nullish_ToString: "is_nullish a \<Longrightarrow> ToString a \<noteq> Inl e"
  by (cases a) simp_all

lemma query_error_raised:
  "raise (QueryError_new (nullish_or a (JStr d)) bd) =
     (if ToString a = Inl TypeError then Inl TypeError
      else Inl (Thrown \<lparr>cls = QueryErrorC, name = ''QueryError'',
                  message = (if is_nullish a then d else (case ToString a of Inr m \<Rightarrow> m | Inl x \<Rightarrow> [])),
                  status = 400, body = bd\<rparr>))"
  by (cases "ToString a")
     (auto simp add: QueryError_new_nullish_or raise_def nullish_ToString dest: ToString_fails)

lemma upload_error_raised:
  "raise (GagaraError_new (nullish_or a (JStr d)) st bd) =
     (if ToString a = Inl TypeError then Inl TypeError
      else Inl (Thrown \<lparr>cls = GagaraErrorC, name = ''GagaraError'',
                  message = (if is_nullish a then d else (case ToString a of Inr m \<Rightarrow> m | Inl x \<Rightarrow> [])),
                  status = st, body = bd\<rparr>))"
  by (cases "ToString a")
     (auto simp add: GagaraError_new_nullish_or raise_def nullish_ToString dest: ToString_fails)

section \<open>A reply means the token converted\<close>

lemma stringable_if_replied:
  "reply f m w = Some out \<Longrightarrow>
   snd (m w) = (case ToString v of Inl e \<Rightarrow> w | Inr t \<Rightarrow> after_call (inp t) tmo w) \<Longrightarrow>
   \<exists>t. ToString v = Inr t"
  by (cases "ToString v") (simp_all add: reply_unchanged)

lemma query_replied: "reply f (query ds sql) w = Some out \<Longrightarrow> \<exists>t. ToString (token ds) = Inr t"
  by (erule stringable_if_replied) (rule query_world)

lemma queryFull_replied:
  "reply f (queryFull ds sql) w = Some out \<Longrightarrow> \<exists>t. ToString (token ds) = Inr t"
  by (erule stringable_if_replied) (rule queryFull_world)

lemma schema_replied: "reply f (schema ds) w = Some out \<Longrightarrow> \<exists>t. ToString (token ds) = Inr t"
  by (erule stringable_if_replied) (rule schema_world)

lemma meta_replied: "reply f (meta ds) w = Some out \<Longrightarrow> \<exists>t. ToString (token ds) = Inr t"
  by (erule stringable_if_replied) (rule meta_world)

lemma isPresent_replied:
  "reply f (isPresent ds) w = Some out \<Longrightarrow> \<exists>t. ToString (token ds) = Inr t"
  by (erule stringable_if_replied) (rule isPresent_world)

lemma rename_replied:
  "reply f (rename ds newName) w = Some out \<Longrightarrow> \<exists>t. ToString (token ds) = Inr t"
  by (erule stringable_if_replied) (rule rename_world)

lemma delete_replied: "reply f (delete ds) w = Some out \<Longrightarrow> \<exists>t. ToString (token ds) = Inr t"
  by (erule stringable_if_replied) (rule delete_world)

lemma scoped_or_untouched:
  "wf_world w \<Longrightarrow>
   snd (m w) = (case ToString v of Inl e \<Rightarrow> w | Inr t \<Rightarrow> after_call (sent b (path t) (i t) w) tmo w) \<Longrightarrow>
   (if convertible v then timer_scoped tmo m w else snd (m w) = w)
   \<and> timers (snd (m w)) = timers w"
  by (cases "ToString v")
     (simp_all add: convertible_def after_call_scoped after_call_def wf_world_def filter_fresh)

section \<open>Properties of the client\<close>

text \<open>
  C1, as the code has it. For query, queryFull, schema, meta, rename and delete: when the
  server's response is not 2xx, status 404 makes the operation raise the dataset-not-found
  error, whose message ends with the handle's token. Every other status makes schema,
  meta, rename and delete raise a generic error, and makes query and queryFull raise a
  query error when the body's \<open>error\<close> field is absent, null or converts to a string (a
  string always does); when that field is an object that cannot be converted, the
  \<open>Error\<close> constructor throws and query and queryFull raise its \<open>TypeError\<close>. No status
  other than 404 raises an instance of the not-found class.
\<close>

theorem not_found_on_404:
  "(reply (d_fetch ds) (query ds sql) w = Some (Resolved r) \<and> \<not> ok r \<longrightarrow>
      (if res_status r = 404
       then \<exists>t. ToString (token ds) = Inr t
              \<and> fst (query ds sql w) = Inl (Thrown (not_found t))
       else if ToString (lookup_prop (parsed r) ''error'') = Inl TypeError
       then fst (query ds sql w) = Inl TypeError
       else \<exists>e. fst (query ds sql w) = Inl (Thrown e) \<and> cls e = QueryErrorC
                \<and> \<not> instanceof e DatasetNotFoundErrorC))
   \<and> (reply (d_fetch ds) (queryFull ds sql) w = Some (Resolved r) \<and> \<not> ok r \<longrightarrow>
      (if res_status r = 404
       then \<exists>t. ToString (token ds) = Inr t
              \<and> fst (queryFull ds sql w) = Inl (Thrown (not_found t))
       else if ToString (lookup_prop (parsed r) ''error'') = Inl TypeError
       then fst (queryFull ds sql w) = Inl TypeError
       else \<exists>e. fst (queryFull ds sql w) = Inl (Thrown e) \<and> cls e = QueryErrorC
                \<and> \<not> instanceof e DatasetNotFoundErrorC))
   \<and> (reply (d_fetch ds) (schema ds) w = Some (Resolved r) \<and> \<not> ok r \<longrightarrow>
      (if res_status r = 404
       then \<exists>t. ToString (token ds) = Inr t
              \<and> fst (schema ds w) = Inl (Thrown (not_found t))
       else \<exists>e. fst (schema ds w) = Inl (Thrown e) \<and> cls e = GagaraErrorC
                \<and> \<not> instanceof e DatasetNotFoundErrorC))
   \<and> (reply (d_fetch ds) (meta ds) w = Some (Resolved r) \<and> \<not> ok r \<longrightarrow>
      (if res_status r = 404
       then \<exists>t. ToString (token ds) = Inr t
              \<and> fst (meta ds w) = Inl (Thrown (not_found t))
       else \<exists>e. fst (meta ds w) = Inl (Thrown e) \<and> cls e = GagaraErrorC
                \<and> \<not> instanceof e DatasetNotFoundErrorC))
   \<and> (reply (d_fetch ds) (rename ds newName) w = Some (Resolved r) \<and> \<not> ok r \<longrightarrow>
      (if res_status r = 404
       then \<exists>t. ToString (token ds) = Inr t
              \<and> fst (rename ds newName w) = Inl (Thrown (not_found t))
       else \<exists>e. fst (rename ds newName w) = Inl (Thrown e) \<and> cls e = GagaraErrorC
                \<and> \<not> instanceof e DatasetNotFoundErrorC))
   \<and> (reply (d_fetch ds) (delete ds) w = Some (Resolved r) \<and> \<not> ok r \<longrightarrow>
      (if res_status r = 404
       then \<exists>t. ToString (token ds) = Inr t
              \<and> fst (delete ds w) = Inl (Thrown (not_found t))
       else \<exists>e. fst (delete ds w) = Inl (Thrown e) \<and> cls e = GagaraErrorC
                \<and> \<not> instanceof e DatasetNotFoundErrorC))"
proof -
  have q: "reply (d_fetch ds) (query ds sql) w = Some (Resolved r) \<and> \<not> ok r \<longrightarrow>
      (if res_status r = 404
       then \<exists>t. ToString (token ds) = Inr t
              \<and> fst (query ds sql w) = Inl (Thrown (not_found t))
       else if ToString (lookup_prop (parsed r) ''error'') = Inl TypeError
       then fst (query ds sql w) = Inl TypeError
       else \<exists>e. fst (query ds sql w) = Inl (Thrown e) \<and> cls e = QueryErrorC
                \<and> \<not> instanceof e DatasetNotFoundErrorC)"
    by (auto dest!: query_replied simp add: query_run not_found_raised not_found_def query_error_raised)
  have qf: "reply (d_fetch ds) (queryFull ds sql) w = Some (Resolved r) \<and> \<not> ok r \<longrightarrow>
      (if res_status r = 404
       then \<exists>t. ToString (token ds) = Inr t
              \<and> fst (queryFull ds sql w) = Inl (Thrown (not_found t))
       else if ToString (lookup_prop (parsed r) ''error'') = Inl TypeError
       then fst (queryFull ds sql w) = Inl TypeError
       else \<exists>e. fst (queryFull ds sql w) = Inl (Thrown e) \<and> cls e = QueryErrorC
                \<and> \<not> instanceof e DatasetNotFoundErrorC)"
    by (auto dest!: queryFull_replied simp add: queryFull_run not_found_raised not_found_def query_error_raised)
  have s: "reply (d_fetch ds) (schema ds) w = Some (Resolved r) \<and> \<not> ok r \<longrightarrow>
      (if res_status r = 404
       then \<exists>t. ToString (token ds) = Inr t
              \<and> fst (schema ds w) = Inl (Thrown (not_found t))
       else \<exists>e. fst (schema ds w) = Inl (Thrown e) \<and> cls e = GagaraErrorC
                \<and> \<not> instanceof e DatasetNotFoundErrorC)"
    by (auto dest!: schema_replied simp add: schema_run not_found_raised not_found_def generic_error_raised)
  have m: "reply (d_fetch ds) (meta ds) w = Some (Resolved r) \<and> \<not> ok r \<longrightarrow>
      (if res_status r = 404
       then \<exists>t. ToString (token ds) = Inr t
              \<and> fst (meta ds w) = Inl (Thrown (not_found t))
       else \<exists>e. fst (meta ds w) = Inl (Thrown e) \<and> cls e = GagaraErrorC
                \<and> \<not> instanceof e DatasetNotFoundErrorC)"
    by (auto dest!: meta_replied simp add: meta_run not_found_raised not_found_def generic_error_raised)
  have rn: "reply (d_fetch ds) (rename ds newName) w = Some (Resolved r) \<and> \<not> ok r \<longrightarrow>
      (if res_status r = 404
       then \<exists>t. ToString (token ds) = Inr t
              \<and> fst (rename ds newName w) = Inl (Thrown (not_found t))
       else \<exists>e. fst (rename ds newName w) = Inl (Thrown e) \<and> cls e = GagaraErrorC
                \<and> \<not> instanceof e DatasetNotFoundErrorC)"
    by (auto dest!: rename_replied simp add: rename_run not_found_raised not_found_def generic_error_raised)
  have d: "reply (d_fetch ds) (delete ds) w = Some (Resolved r) \<and> \<not> ok r \<longrightarrow>
      (if res_status r = 404
       then \<exists>t. ToString (token ds) = Inr t
              \<and> fst (delete ds w) = Inl (Thrown (not_found t))
       else \<exists>e. fst (delete ds w) = Inl (Thrown e) \<and> cls e = GagaraErrorC
                \<and> \<not> instanceof e DatasetNotFoundErrorC)"
    by (auto dest!: delete_replied simp add: delete_run not_found_raised not_found_def generic_error_raised)
  from q qf s m rn d show ?thesis
    by (intro conjI)
qed

theorem not_found_on_404_witness:
  "reply (d_fetch (Dataset_new (JStr ''missing'') ''https://gagara.test''
            (stub_fetch (Resolved \<lparr>res_status = 404,
               res_json = Some (JObj [(''error'', JStr ''unknown token'')])\<rparr>)) 30000))
         (query (Dataset_new (JStr ''missing'') ''https://gagara.test''
            (stub_fetch (Resolved \<lparr>res_status = 404,
               res_json = Some (JObj [(''error'', JStr ''unknown token'')])\<rparr>)) 30000)
            ''SELECT 1'') world0
     = Some (Resolved \<lparr>res_status = 404,
               res_json = Some (JObj [(''error'', JStr ''unknown token'')])\<rparr>)
   \<and> \<not> ok \<lparr>res_status = 404, res_json = Some (JObj [(''error'', JStr ''unknown token'')])\<rparr>
   \<and> fst (query (Dataset_new (JStr ''missing'') ''https://gagara.test''
            (stub_fetch (Resolved \<lparr>res_status = 404,
               res_json = Some (JObj [(''error'', JStr ''unknown token'')])\<rparr>)) 30000)
            ''SELECT 1'' world0)
     = Inl (Thrown \<lparr>cls = DatasetNotFoundErrorC, name = ''DatasetNotFoundError'',
                    message = ''Dataset not found: missing'', status = 404, body = JUndefined\<rparr>)"
proof -
  let ?r = "\<lparr>res_status = 404, res_json = Some (JObj [(''error'', JStr ''unknown token'')])\<rparr>"
  let ?ds = "Dataset_new (JStr ''missing'') ''https://gagara.test'' (stub_fetch (Resolved ?r)) 30000"
  have t: "ToString (token ?ds) = Inr ''missing''"
    by (simp add: Dataset_new_def)
  have a: "reply (d_fetch ?ds) (query ?ds ''SELECT 1'') world0 = Some (Resolved ?r)"
    by (simp add: reply_cases [OF query_world] t) (simp add: stub_fetch_def Dataset_new_def)
  have b: "\<not> ok ?r"
    by (simp add: ok_def)
  have "reply (d_fetch ?ds) (query ?ds ''SELECT 1'') world0 = Some (Resolved ?r) \<and> \<not> ok ?r \<longrightarrow>
      (if res_status ?r = 404
       then \<exists>t. ToString (token ?ds) = Inr t
              \<and> fst (query ?ds ''SELECT 1'' world0) = Inl (Thrown (not_found t))
       else if ToString (lookup_prop (parsed ?r) ''error'') = Inl TypeError
       then fst (query ?ds ''SELECT 1'' world0) = Inl TypeError
       else \<exists>e. fst (query ?ds ''SELECT 1'' world0) = Inl (Thrown e) \<and> cls e = QueryErrorC
                \<and> \<not> instanceof e DatasetNotFoundErrorC)"
    by (rule not_found_on_404 [THEN conjunct1])
  with a b have "\<exists>t. ToString (token ?ds) = Inr t
              \<and> fst (query ?ds ''SELECT 1'' world0) = Inl (Thrown (not_found t))"
    by simp
  with t have "fst (query ?ds ''SELECT 1'' world0) = Inl (Thrown (not_found ''missing''))"
    by auto
  with a b show ?thesis
    by (simp add: not_found_def)
qed

text \<open>
  A 500 answer to \<open>query\<close> whose body is \<open>{"error": {"toString": 1}}\<close> raises neither a
  query error nor a generic error, but a \<open>TypeError\<close>.
\<close>

theorem query_unconvertible_error_counterexample:
  "reply (d_fetch (Dataset_new (JStr ''test'') ''https://gagara.test''
            (stub_fetch (Resolved \<lparr>res_status = 500,
               res_json = Some (JObj [(''error'', JObj [(''toString'', JNum ''1'')])])\<rparr>))
            30000))
         (query (Dataset_new (JStr ''test'') ''https://gagara.test''
            (stub_fetch (Resolved \<lparr>res_status = 500,
               res_json = Some (JObj [(''error'', JObj [(''toString'', JNum ''1'')])])\<rparr>))
            30000) ''SELECT 1'') world0
     = Some (Resolved \<lparr>res_status = 500,
               res_json = Some (JObj [(''error'', JObj [(''toString'', JNum ''1'')])])\<rparr>)
   \<and> \<not> ok \<lparr>res_status = 500,
             res_json = Some (JObj [(''error'', JObj [(''toString'', JNum ''1'')])])\<rparr>
   \<and> res_status \<lparr>res_status = 500,
             res_json = Some (JObj [(''error'', JObj [(''toString'', JNum ''1'')])])\<rparr> \<noteq> 404
   \<and> fst (query (Dataset_new (JStr ''test'') ''https://gagara.test''
            (stub_fetch (Resolved \<lparr>res_status = 500,
               res_json = Some (JObj [(''error'', JObj [(''toString'', JNum ''1'')])])\<rparr>))
            30000) ''SELECT 1'' world0)
     = Inl TypeError"
proof -
  let ?r = "\<lparr>res_status = 500,
             res_json = Some (JObj [(''error'', JObj [(''toString'', JNum ''1'')])])\<rparr>"
  let ?ds = "Dataset_new (JStr ''test'') ''https://gagara.test'' (stub_fetch (Resolved ?r)) 30000"
  have t: "ToString (token ?ds) = Inr ''test''"
    by (simp add: Dataset_new_def)
  have a: "reply (d_fetch ?ds) (query ?ds ''SELECT 1'') world0 = Some (Resolved ?r)"
    by (simp add: reply_cases [OF query_world] t) (simp add: stub_fetch_def Dataset_new_def)
  have b: "\<not> ok ?r"
    by (simp add: ok_def)
  have c: "fst (query ?ds ''SELECT 1'' world0) = Inl TypeError"
    by (simp add: query_run a b query_error_raised parsed_def)
  from a b c show ?thesis
    by simp
qed

text \<open>
  C2, as the code has it. Every client error raised for a response that is not 2xx
  carries a status. For upload, schema, meta, isPresent, rename and delete it is the
  status of the response (404 for the not-found error). For query and queryFull it is 404
  for the not-found error and otherwise the fixed 400 of \<open>QueryError\<close>, whose constructor
  takes no status, whatever status the server sent. Where the message comes from the
  body's \<open>error\<close> field (upload, and the two queries on a status other than 404) and that
  field is an object that cannot be converted to a string, the operation raises the
  \<open>TypeError\<close> of the conversion instead, which carries no status.
\<close>

theorem error_status:
  "(reply (c_fetch c) (upload c data nm options) w = Some (Resolved r) \<and> \<not> ok r \<longrightarrow>
      (if ToString (lookup_prop (parsed r) ''error'') = Inl TypeError
       then fst (upload c data nm options w) = Inl TypeError
       else \<exists>e. fst (upload c data nm options w) = Inl (Thrown e) \<and> status e = res_status r))
   \<and> (reply (d_fetch ds) (schema ds) w = Some (Resolved r) \<and> \<not> ok r \<longrightarrow>
      (\<exists>e. fst (schema ds w) = Inl (Thrown e) \<and> status e = res_status r))
   \<and> (reply (d_fetch ds) (meta ds) w = Some (Resolved r) \<and> \<not> ok r \<longrightarrow>
      (\<exists>e. fst (meta ds w) = Inl (Thrown e) \<and> status e = res_status r))
   \<and> (reply (d_fetch ds) (isPresent ds) w = Some (Resolved r) \<and> \<not> ok r \<longrightarrow>
      (\<exists>e. fst (isPresent ds w) = Inl (Thrown e) \<and> status e = res_status r))
   \<and> (reply (d_fetch ds) (rename ds newName) w = Some (Resolved r) \<and> \<not> ok r \<longrightarrow>
      (\<exists>e. fst (rename ds newName w) = Inl (Thrown e) \<and> status e = res_status r))
   \<and> (reply (d_fetch ds) (delete ds) w = Some (Resolved r) \<and> \<not> ok r \<longrightarrow>
      (\<exists>e. fst (delete ds w) = Inl (Thrown e) \<and> status e = res_status r))
   \<and> (reply (d_fetch ds) (query ds sql) w = Some (Resolved r) \<and> \<not> ok r \<longrightarrow>
      (if res_status r \<noteq> 404 \<and> ToString (lookup_prop (parsed r) ''error'') = Inl TypeError
       then fst (query ds sql w) = Inl TypeError
       else \<exists>e. fst (query ds sql w) = Inl (Thrown e)
              \<and> status e = (if res_status r = 404 then 404 else 400)))
   \<and> (reply (d_fetch ds) (queryFull ds sql) w = Some (Resolved r) \<and> \<not> ok r \<longrightarrow>
      (if res_status r \<noteq> 404 \<and> ToString (lookup_prop (parsed r) ''error'') = Inl TypeError
       then fst (queryFull ds sql w) = Inl TypeError
       else \<exists>e. fst (queryFull ds sql w) = Inl (Thrown e)
              \<and> status e = (if res_status r = 404 then 404 else 400)))"
proof -
  have u: "reply (c_fetch c) (upload c data nm options) w = Some (Resolved r) \<and> \<not> ok r \<longrightarrow>
      (if ToString (lookup_prop (parsed r) ''error'') = Inl TypeError
       then fst (upload c data nm options w) = Inl TypeError
       else \<exists>e. fst (upload c data nm options w) = Inl (Thrown e) \<and> status e = res_status r)"
    by (simp add: upload_run upload_error_raised)
  have s: "reply (d_fetch ds) (schema ds) w = Some (Resolved r) \<and> \<not> ok r \<longrightarrow>
      (\<exists>e. fst (schema ds w) = Inl (Thrown e) \<and> status e = res_status r)"
    by (auto dest!: schema_replied simp add: schema_run not_found_raised generic_error_raised)
  have m: "reply (d_fetch ds) (meta ds) w = Some (Resolved r) \<and> \<not> ok r \<longrightarrow>
      (\<exists>e. fst (meta ds w) = Inl (Thrown e) \<and> status e = res_status r)"
    by (auto dest!: meta_replied simp add: meta_run not_found_raised generic_error_raised)
  have p: "reply (d_fetch ds) (isPresent ds) w = Some (Resolved r) \<and> \<not> ok r \<longrightarrow>
      (\<exists>e. fst (isPresent ds w) = Inl (Thrown e) \<and> status e = res_status r)"
    by (simp add: isPresent_run generic_error_raised)
  have rn: "reply (d_fetch ds) (rename ds newName) w = Some (Resolved r) \<and> \<not> ok r \<longrightarrow>
      (\<exists>e. fst (rename ds newName w) = Inl (Thrown e) \<and> status e = res_status r)"
    by (auto dest!: rename_replied simp add: rename_run not_found_raised generic_error_raised)
  have d: "reply (d_fetch ds) (delete ds) w = Some (Resolved r) \<and> \<not> ok r \<longrightarrow>
      (\<exists>e. fst (delete ds w) = Inl (Thrown e) \<and> status e = res_status r)"
    by (auto dest!: delete_replied simp add: delete_run not_found_raised generic_error_raised)
  have q: "reply (d_fetch ds) (query ds sql) w = Some (Resolved r) \<and> \<not> ok r \<longrightarrow>
      (if res_status r \<noteq> 404 \<and> ToString (lookup_prop (parsed r) ''error'') = Inl TypeError
       then fst (query ds sql w) = Inl TypeError
       else \<exists>e. fst (query ds sql w) = Inl (Thrown e)
              \<and> status e = (if res_status r = 404 then 404 else 400))"
    by (auto dest!: query_replied simp add: query_run not_found_raised query_error_raised)
  have qf: "reply (d_fetch ds) (queryFull ds sql) w = Some (Resolved r) \<and> \<not> ok r \<longrightarrow>
      (if res_status r \<noteq> 404 \<and> ToString (lookup_prop (parsed r) ''error'') = Inl TypeError
       then fst (queryFull ds sql w) = Inl TypeError
       else \<exists>e. fst (queryFull ds sql w) = Inl (Thrown e)
              \<and> status e = (if res_status r = 404 then 404 else 400))"
    by (auto dest!: queryFull_replied simp add: queryFull_run not_found_raised query_error_raised)
  from u s m p rn d q qf show ?thesis
    by (intro conjI)
qed

theorem error_status_witness:
  "reply (d_fetch (Dataset_new (JStr ''test'') ''https://gagara.test''
            (stub_fetch (Resolved \<lparr>res_status = 503, res_json = None\<rparr>)) 30000))
         (schema (Dataset_new (JStr ''test'') ''https://gagara.test''
            (stub_fetch (Resolved \<lparr>res_status = 503, res_json = None\<rparr>)) 30000)) world0
     = Some (Resolved \<lparr>res_status = 503, res_json = None\<rparr>)
   \<and> reply (d_fetch (Dataset_new (JStr ''test'') ''https://gagara.test''
            (stub_fetch (Resolved \<lparr>res_status = 503, res_json = None\<rparr>)) 30000))
         (query (Dataset_new (JStr ''test'') ''https://gagara.test''
            (stub_fetch (Resolved \<lparr>res_status = 503, res_json = None\<rparr>)) 30000)
            ''SELECT 1'') world0
     = Some (Resolved \<lparr>res_status = 503, res_json = None\<rparr>)
   \<and> \<not> ok \<lparr>res_status = 503, res_json = None\<rparr>
   \<and> (\<exists>e. fst (schema (Dataset_new (JStr ''test'') ''https://gagara.test''
            (stub_fetch (Resolved \<lparr>res_status = 503, res_json = None\<rparr>)) 30000) world0)
           = Inl (Thrown e) \<and> status e = 503)
   \<and> (\<exists>e. fst (query (Dataset_new (JStr ''test'') ''https://gagara.test''
            (stub_fetch (Resolved \<lparr>res_status = 503, res_json = None\<rparr>)) 30000)
            ''SELECT 1'' world0)
           = Inl (Thrown e) \<and> status e = 400)"
proof -
  let ?r = "\<lparr>res_status = 503, res_json = None\<rparr>"
  let ?ds = "Dataset_new (JStr ''test'') ''https://gagara.test'' (stub_fetch (Resolved ?r)) 30000"
  have t: "ToString (token ?ds) = Inr ''test''"
    by (simp add: Dataset_new_def)
  have a: "reply (d_fetch ?ds) (schema ?ds) world0 = Some (Resolved ?r)"
    by (simp add: reply_cases [OF schema_world] t) (simp add: stub_fetch_def Dataset_new_def)
  have b: "reply (d_fetch ?ds) (query ?ds ''SELECT 1'') world0 = Some (Resolved ?r)"
    by (simp add: reply_cases [OF query_world] t) (simp add: stub_fetch_def Dataset_new_def)
  have c: "\<not> ok ?r"
    by (simp add: ok_def)
  have e: "ToString (lookup_prop (parsed ?r) ''error'') \<noteq> Inl TypeError"
    by (simp add: parsed_def)
  note th = error_status [where ds = ?ds and w = world0 and r = ?r and sql = "''SELECT 1''"]
  from th [THEN conjunct2, THEN conjunct1] a c
  have s: "\<exists>e. fst (schema ?ds world0) = Inl (Thrown e) \<and> status e = res_status ?r"
    by blast
  from th [THEN conjunct2, THEN conjunct2, THEN conjunct2, THEN conjunct2, THEN conjunct2,
           THEN conjunct2, THEN conjunct1] b c e
  have q: "\<exists>e. fst (query ?ds ''SELECT 1'' world0) = Inl (Thrown e)
              \<and> status e = (if res_status ?r = 404 then 404 else 400)"
    by simp
  from a b c s q show ?thesis
    by simp
qed

text \<open>
  The status of a query error is not the response's: a 500 answer to \<open>query\<close> raises a
  \<open>QueryError\<close> with status 400.
\<close>

theorem query_error_status_counterexample:
  "reply (d_fetch (Dataset_new (JStr ''test'') ''https://gagara.test''
            (stub_fetch (Resolved \<lparr>res_status = 500,
               res_json = Some (JObj [(''error'', JStr ''internal error'')])\<rparr>)) 30000))
         (query (Dataset_new (JStr ''test'') ''https://gagara.test''
            (stub_fetch (Resolved \<lparr>res_status = 500,
               res_json = Some (JObj [(''error'', JStr ''internal error'')])\<rparr>)) 30000)
            ''SELECT 1'') world0
     = Some (Resolved \<lparr>res_status = 500,
               res_json = Some (JObj [(''error'', JStr ''internal error'')])\<rparr>)
   \<and> \<not> ok \<lparr>res_status = 500, res_json = Some (JObj [(''error'', JStr ''internal error'')])\<rparr>
   \<and> fst (query (Dataset_new (JStr ''test'') ''https://gagara.test''
            (stub_fetch (Resolved \<lparr>res_status = 500,
               res_json = Some (JObj [(''error'', JStr ''internal error'')])\<rparr>)) 30000)
            ''SELECT 1'' world0)
     = Inl (Thrown \<lparr>cls = QueryErrorC, name = ''QueryError'', message = ''internal error'',
                    status = 400, body = JObj [(''error'', JStr ''internal error'')]\<rparr>)
   \<and> status \<lparr>cls = QueryErrorC, name = ''QueryError'', message = ''internal error'',
              status = 400, body = JObj [(''error'', JStr ''internal error'')]\<rparr>
     \<noteq> res_status \<lparr>res_status = 500,
                     res_json = Some (JObj [(''error'', JStr ''internal error'')])\<rparr>"
proof -
  let ?r = "\<lparr>res_status = 500, res_json = Some (JObj [(''error'', JStr ''internal error'')])\<rparr>"
  let ?ds = "Dataset_new (JStr ''test'') ''https://gagara.test'' (stub_fetch (Resolved ?r)) 30000"
  have t: "ToString (token ?ds) = Inr ''test''"
    by (simp add: Dataset_new_def)
  have a: "reply (d_fetch ?ds) (query ?ds ''SELECT 1'') world0 = Some (Resolved ?r)"
    by (simp add: reply_cases [OF query_world] t) (simp add: stub_fetch_def Dataset_new_def)
  have b: "\<not> ok ?r"
    by (simp add: ok_def)
  have c: "fst (query ?ds ''SELECT 1'' world0) =
      Inl (Thrown \<lparr>cls = QueryErrorC, name = ''QueryError'', message = ''internal error'',
                    status = 400, body = JObj [(''error'', JStr ''internal error'')]\<rparr>)"
    by (simp add: query_run a b query_error_raised parsed_def)
  from a b c show ?thesis
    by simp
qed

text \<open>
  C3. \<open>query(sql)\<close> is \<open>queryFull(sql)\<close> followed by reading \<open>rows\<close>. On a 2xx response
  with parsed body \<open>v\<close>, queryFull returns \<open>v\<close> itself (columns and rows untouched) and
  query returns the \<open>rows\<close> property of \<open>v\<close>. Every error queryFull raises, query raises
  too; when the response is not a 2xx response both raise the same error. Both issue the
  same request and leave the same world.
\<close>

theorem query_is_queryFull_rows:
  "query ds sql = bind (queryFull ds sql) (\<lambda>full. get_prop full ''rows'')
   \<and> (reply (d_fetch ds) (queryFull ds sql) w = Some (Resolved r) \<and> ok r
        \<and> res_json r = Some v \<longrightarrow>
        fst (queryFull ds sql w) = Inr v
        \<and> (\<not> is_nullish v \<longrightarrow> fst (query ds sql w) = Inr (lookup_prop v ''rows'')))
   \<and> (fst (queryFull ds sql w) = Inl e \<longrightarrow> fst (query ds sql w) = Inl e)
   \<and> (\<not> (\<exists>r. reply (d_fetch ds) (queryFull ds sql) w = Some (Resolved r) \<and> ok r) \<longrightarrow>
        (\<exists>e. fst (query ds sql w) = Inl e \<and> fst (queryFull ds sql w) = Inl e))
   \<and> snd (query ds sql w) = snd (queryFull ds sql w)"
proof -
  have eq: "query ds sql = bind (queryFull ds sql) (\<lambda>full. get_prop full ''rows'')"
    by (rule ext)
       (simp add: query_def queryFull_def dataset_request_run io_defs raise_def
          split: sum.splits fetch_outcome.splits option.splits)
  have same: "reply (d_fetch ds) (query ds sql) w = reply (d_fetch ds) (queryFull ds sql) w"
    by (simp add: reply_cases [OF query_world] reply_cases [OF queryFull_world])
  have full: "reply (d_fetch ds) (queryFull ds sql) w = Some (Resolved r) \<and> ok r
        \<and> res_json r = Some v \<longrightarrow>
        fst (queryFull ds sql w) = Inr v
        \<and> (\<not> is_nullish v \<longrightarrow> fst (query ds sql w) = Inr (lookup_prop v ''rows''))"
    by (simp add: query_run queryFull_run same)
  have err: "fst (queryFull ds sql w) = Inl e \<longrightarrow> fst (query ds sql w) = Inl e"
    by (simp add: query_run queryFull_run same
          split: fetch_outcome.splits option.splits if_splits)
  have fail: "\<not> (\<exists>r. reply (d_fetch ds) (queryFull ds sql) w = Some (Resolved r) \<and> ok r) \<longrightarrow>
        (\<exists>e. fst (query ds sql w) = Inl e \<and> fst (queryFull ds sql w) = Inl e)"
    by (simp add: query_run queryFull_run same raise_def
          split: option.splits fetch_outcome.splits sum.splits)
  have world: "snd (query ds sql w) = snd (queryFull ds sql w)"
    by (simp add: query_world queryFull_world)
  from eq full err fail world show ?thesis
    by blast
qed

theorem query_is_queryFull_rows_witness:
  "reply (d_fetch (Dataset_new (JStr ''test-token'') ''https://gagara.test''
            (stub_fetch (Resolved \<lparr>res_status = 200, res_json = Some (JObj
               [(''columns'', JArr [JStr ''id'', JStr ''name'']),
                (''rows'', JArr [JObj [(''id'', JNum ''1''), (''name'', JStr ''Alice'')],
                                 JObj [(''id'', JNum ''2''), (''name'', JStr ''Bob'')]])])\<rparr>))
            30000))
         (queryFull (Dataset_new (JStr ''test-token'') ''https://gagara.test''
            (stub_fetch (Resolved \<lparr>res_status = 200, res_json = Some (JObj
               [(''columns'', JArr [JStr ''id'', JStr ''name'']),
                (''rows'', JArr [JObj [(''id'', JNum ''1''), (''name'', JStr ''Alice'')],
                                 JObj [(''id'', JNum ''2''), (''name'', JStr ''Bob'')]])])\<rparr>))
            30000) ''SELECT * FROM dataset'') world0
     = Some (Resolved \<lparr>res_status = 200, res_json = Some (JObj
               [(''columns'', JArr [JStr ''id'', JStr ''name'']),
                (''rows'', JArr [JObj [(''id'', JNum ''1''), (''name'', JStr ''Alice'')],
                                 JObj [(''id'', JNum ''2''), (''name'', JStr ''Bob'')]])])\<rparr>)
   \<and> ok \<lparr>res_status = 200, res_json = Some (JObj
               [(''columns'', JArr [JStr ''id'', JStr ''name'']),
                (''rows'', JArr [JObj [(''id'', JNum ''1''), (''name'', JStr ''Alice'')],
                                 JObj [(''id'', JNum ''2''), (''name'', JStr ''Bob'')]])])\<rparr>
   \<and> fst (queryFull (Dataset_new (JStr ''test-token'') ''https://gagara.test''
            (stub_fetch (Resolved \<lparr>res_status = 200, res_json = Some (JObj
               [(''columns'', JArr [JStr ''id'', JStr ''name'']),
                (''rows'', JArr [JObj [(''id'', JNum ''1''), (''name'', JStr ''Alice'')],
                                 JObj [(''id'', JNum ''2''), (''name'', JStr ''Bob'')]])])\<rparr>))
            30000) ''SELECT * FROM dataset'' world0)
     = Inr (JObj
               [(''columns'', JArr [JStr ''id'', JStr ''name'']),
                (''rows'', JArr [JObj [(''id'', JNum ''1''), (''name'', JStr ''Alice'')],
                                 JObj [(''id'', JNum ''2''), (''name'', JStr ''Bob'')]])])
   \<and> fst (query (Dataset_new (JStr ''test-token'') ''https://gagara.test''
            (stub_fetch (Resolved \<lparr>res_status = 200, res_json = Some (JObj
               [(''columns'', JArr [JStr ''id'', JStr ''name'']),
                (''rows'', JArr [JObj [(''id'', JNum ''1''), (''name'', JStr ''Alice'')],
                                 JObj [(''id'', JNum ''2''), (''name'', JStr ''Bob'')]])])\<rparr>))
            30000) ''SELECT * FROM dataset'' world0)
     = Inr (JArr [JObj [(''id'', JNum ''1''), (''name'', JStr ''Alice'')],
                  JObj [(''id'', JNum ''2''), (''name'', JStr ''Bob'')]])"
proof -
  let ?v = "JObj [(''columns'', JArr [JStr ''id'', JStr ''name'']),
                (''rows'', JArr [JObj [(''id'', JNum ''1''), (''name'', JStr ''Alice'')],
                                 JObj [(''id'', JNum ''2''), (''name'', JStr ''Bob'')]])]"
  let ?r = "\<lparr>res_status = 200, res_json = Some ?v\<rparr>"
  let ?ds = "Dataset_new (JStr ''test-token'') ''https://gagara.test''
               (stub_fetch (Resolved ?r)) 30000"
  have t: "ToString (token ?ds) = Inr ''test-token''"
    by (simp add: Dataset_new_def)
  have a: "reply (d_fetch ?ds) (queryFull ?ds ''SELECT * FROM dataset'') world0
             = Some (Resolved ?r)"
    by (simp add: reply_cases [OF queryFull_world] t) (simp add: stub_fetch_def Dataset_new_def)
  have b: "ok ?r"
    by (simp add: ok_def)
  have c: "res_json ?r = Some ?v" "\<not> is_nullish ?v"
    by simp_all
  have "reply (d_fetch ?ds) (queryFull ?ds ''SELECT * FROM dataset'') world0 = Some (Resolved ?r)
          \<and> ok ?r \<and> res_json ?r = Some ?v \<longrightarrow>
        fst (queryFull ?ds ''SELECT * FROM dataset'' world0) = Inr ?v
        \<and> (\<not> is_nullish ?v \<longrightarrow>
            fst (query ?ds ''SELECT * FROM dataset'' world0) = Inr (lookup_prop ?v ''rows''))"
    by (rule query_is_queryFull_rows [THEN conjunct2, THEN conjunct1])
  with a b c have "fst (queryFull ?ds ''SELECT * FROM dataset'' world0) = Inr ?v
        \<and> fst (query ?ds ''SELECT * FROM dataset'' world0) = Inr (lookup_prop ?v ''rows'')"
    by blast
  with a b show ?thesis
    by simp
qed

text \<open>
  C4. When upload is answered 2xx with a JSON body (not null), it returns a handle whose
  token is the body's \<open>token\<close> property, unchanged; and every handle upload returns
  carries the \<open>token\<close> property of a 2xx response's body.
\<close>

theorem upload_token_verbatim:
  "(reply (c_fetch c) (upload c data nm options) w = Some (Resolved r) \<and> ok r
      \<and> res_json r = Some v \<and> \<not> is_nullish v \<longrightarrow>
      (\<exists>ds. fst (upload c data nm options w) = Inr ds \<and> token ds = lookup_prop v ''token''))
   \<and> (fst (upload c data nm options w) = Inr ds' \<longrightarrow>
      (\<exists>r' v'. reply (c_fetch c) (upload c data nm options) w = Some (Resolved r') \<and> ok r'
          \<and> res_json r' = Some v' \<and> token ds' = lookup_prop v' ''token''))"
proof -
  have returned: "reply (c_fetch c) (upload c data nm options) w = Some (Resolved r) \<and> ok r
      \<and> res_json r = Some v \<and> \<not> is_nullish v \<longrightarrow>
      (\<exists>ds. fst (upload c data nm options w) = Inr ds \<and> token ds = lookup_prop v ''token'')"
    by (simp add: upload_run Dataset_new_def)
  have only_so: "fst (upload c data nm options w) = Inr ds' \<longrightarrow>
      (\<exists>r' v'. reply (c_fetch c) (upload c data nm options) w = Some (Resolved r') \<and> ok r'
          \<and> res_json r' = Some v' \<and> token ds' = lookup_prop v' ''token'')"
    by (auto simp add: upload_run Dataset_new_def raise_def
          split: option.splits fetch_outcome.splits if_splits sum.splits)
  from returned only_so show ?thesis
    by (intro conjI)
qed

theorem upload_token_verbatim_witness:
  "reply (c_fetch \<lparr>c_baseUrl = ''https://gagara.test'',
            c_fetch = stub_fetch (Resolved \<lparr>res_status = 200,
              res_json = Some (JObj [(''token'', JStr ''abc123'')])\<rparr>),
            c_timeout = 30000\<rparr>)
         (upload \<lparr>c_baseUrl = ''https://gagara.test'',
            c_fetch = stub_fetch (Resolved \<lparr>res_status = 200,
              res_json = Some (JObj [(''token'', JStr ''abc123'')])\<rparr>),
            c_timeout = 30000\<rparr> (Uint8Array [105, 100]) ''users'' \<lparr>format = None\<rparr>) world0
     = Some (Resolved \<lparr>res_status = 200,
               res_json = Some (JObj [(''token'', JStr ''abc123'')])\<rparr>)
   \<and> ok \<lparr>res_status = 200, res_json = Some (JObj [(''token'', JStr ''abc123'')])\<rparr>
   \<and> \<not> is_nullish (JObj [(''token'', JStr ''abc123'')])
   \<and> (\<exists>ds. fst (upload \<lparr>c_baseUrl = ''https://gagara.test'',
            c_fetch = stub_fetch (Resolved \<lparr>res_status = 200,
              res_json = Some (JObj [(''token'', JStr ''abc123'')])\<rparr>),
            c_timeout = 30000\<rparr> (Uint8Array [105, 100]) ''users'' \<lparr>format = None\<rparr> world0)
           = Inr ds \<and> token ds = JStr ''abc123'')"
proof -
  let ?v = "JObj [(''token'', JStr ''abc123'')]"
  let ?r = "\<lparr>res_status = 200, res_json = Some ?v\<rparr>"
  let ?c = "\<lparr>c_baseUrl = ''https://gagara.test'', c_fetch = stub_fetch (Resolved ?r),
             c_timeout = 30000\<rparr>"
  let ?up = "upload ?c (Uint8Array [105, 100]) ''users'' \<lparr>format = None\<rparr>"
  have a: "reply (c_fetch ?c) ?up world0 = Some (Resolved ?r)"
    by (simp add: reply_after_call [OF upload_world] stub_fetch_def)
  have b: "ok ?r"
    by (simp add: ok_def)
  have c: "\<not> is_nullish ?v" "res_json ?r = Some ?v"
    by simp_all
  have "reply (c_fetch ?c) ?up world0 = Some (Resolved ?r) \<and> ok ?r
      \<and> res_json ?r = Some ?v \<and> \<not> is_nullish ?v \<longrightarrow>
      (\<exists>ds. fst (?up world0) = Inr ds \<and> token ds = lookup_prop ?v ''token'')"
    by (rule upload_token_verbatim [THEN conjunct1])
  with a b c have "\<exists>ds. fst (?up world0) = Inr ds \<and> token ds = lookup_prop ?v ''token''"
    by blast
  with a b c show ?thesis
    by simp
qed

text \<open>
  C5, as the code has it. When upload is answered with a status \<open>s\<close> that is not 2xx, it
  looks at the \<open>error\<close> field of the parsed body (the body is undefined when it is empty
  or not JSON). If the field is absent or null, upload raises a generic \<open>GagaraError\<close>
  with message \<open>Upload failed: s\<close>; if it is a string, the message is that string; if it
  is another value that converts to a string, the message is the conversion. The error
  carries status \<open>s\<close> and the parsed body. If the field is an object that cannot be
  converted to a string, upload raises the \<open>TypeError\<close> of the conversion.
\<close>

theorem upload_failure:
  "reply (c_fetch c) (upload c data nm options) w = Some (Resolved r) \<and> \<not> ok r \<longrightarrow>
     (case lookup_prop (parsed r) ''error'' of
        JUndefined \<Rightarrow>
          fst (upload c data nm options w) =
            Inl (Thrown \<lparr>cls = GagaraErrorC, name = ''GagaraError'',
                   message = ''Upload failed: '' @ show_nat (res_status r),
                   status = res_status r, body = parsed r\<rparr>)
      | JNull \<Rightarrow>
          fst (upload c data nm options w) =
            Inl (Thrown \<lparr>cls = GagaraErrorC, name = ''GagaraError'',
                   message = ''Upload failed: '' @ show_nat (res_status r),
                   status = res_status r, body = parsed r\<rparr>)
      | JStr msg \<Rightarrow>
          fst (upload c data nm options w) =
            Inl (Thrown \<lparr>cls = GagaraErrorC, name = ''GagaraError'', message = msg,
                   status = res_status r, body = parsed r\<rparr>)
      | other \<Rightarrow>
          (case ToString other of
             Inl x \<Rightarrow> fst (upload c data nm options w) = Inl TypeError
           | Inr m \<Rightarrow>
               fst (upload c data nm options w) =
                 Inl (Thrown \<lparr>cls = GagaraErrorC, name = ''GagaraError'', message = m,
                        status = res_status r, body = parsed r\<rparr>)))
     \<and> parsed r = (case res_json r of None \<Rightarrow> JUndefined | Some v \<Rightarrow> v)"
proof (cases "ToString (lookup_prop (parsed r) ''error'')")
  case (Inl x)
  then have "ToString (lookup_prop (parsed r) ''error'') = Inl TypeError"
    by (auto dest: ToString_fails)
  with Inl show ?thesis
    by (cases "lookup_prop (parsed r) ''error''")
       (simp_all add: upload_run upload_error_raised parsed_def)
next
  case (Inr m)
  then show ?thesis
    by (cases "lookup_prop (parsed r) ''error''")
       (simp_all add: upload_run upload_error_raised parsed_def)
qed

theorem upload_failure_witness:
  "reply (c_fetch \<lparr>c_baseUrl = ''https://gagara.test'',
            c_fetch = stub_fetch (Resolved \<lparr>res_status = 502, res_json = None\<rparr>),
            c_timeout = 30000\<rparr>)
         (upload \<lparr>c_baseUrl = ''https://gagara.test'',
            c_fetch = stub_fetch (Resolved \<lparr>res_status = 502, res_json = None\<rparr>),
            c_timeout = 30000\<rparr> (ArrayBuffer [105, 100]) ''users'' \<lparr>format = Some parquet\<rparr>)
         world0
     = Some (Resolved \<lparr>res_status = 502, res_json = None\<rparr>)
   \<and> \<not> ok \<lparr>res_status = 502, res_json = None\<rparr>
   \<and> fst (upload \<lparr>c_baseUrl = ''https://gagara.test'',
            c_fetch = stub_fetch (Resolved \<lparr>res_status = 502, res_json = None\<rparr>),
            c_timeout = 30000\<rparr> (ArrayBuffer [105, 100]) ''users'' \<lparr>format = Some parquet\<rparr>
            world0)
     = Inl (Thrown \<lparr>cls = GagaraErrorC, name = ''GagaraError'',
              message = ''Upload failed: 502'', status = 502, body = JUndefined\<rparr>)"
proof -
  let ?r = "\<lparr>res_status = 502, res_json = None\<rparr>"
  let ?c = "\<lparr>c_baseUrl = ''https://gagara.test'', c_fetch = stub_fetch (Resolved ?r),
             c_timeout = 30000\<rparr>"
  let ?up = "upload ?c (ArrayBuffer [105, 100]) ''users'' \<lparr>format = Some parquet\<rparr>"
  have a: "reply (c_fetch ?c) ?up world0 = Some (Resolved ?r)"
    by (simp add: reply_after_call [OF upload_world] stub_fetch_def)
  have b: "\<not> ok ?r"
    by (simp add: ok_def)
  have d: "show_nat 502 = ''502''"
    by (simp add: show_nat.simps digit_def)
  have p: "parsed ?r = JUndefined"
    by (simp add: parsed_def)
  from upload_failure [of ?c "ArrayBuffer [105, 100]" "''users''" "\<lparr>format = Some parquet\<rparr>"
      world0 ?r] a b
  have "fst (?up world0) =
          Inl (Thrown \<lparr>cls = GagaraErrorC, name = ''GagaraError'',
                 message = ''Upload failed: '' @ show_nat (res_status ?r),
                 status = res_status ?r, body = parsed ?r\<rparr>)"
    by (simp add: p)
  with a b show ?thesis
    by (simp add: d p)
qed

text \<open>
  A 500 answer to upload whose body is \<open>{"error": {"toString": 1}}\<close> raises a
  \<open>TypeError\<close>, not a generic error carrying the status.
\<close>

theorem upload_unconvertible_error_counterexample:
  "reply (c_fetch \<lparr>c_baseUrl = ''https://gagara.test'',
            c_fetch = stub_fetch (Resolved \<lparr>res_status = 500,
              res_json = Some (JObj [(''error'', JObj [(''toString'', JNum ''1'')])])\<rparr>),
            c_timeout = 30000\<rparr>)
         (upload \<lparr>c_baseUrl = ''https://gagara.test'',
            c_fetch = stub_fetch (Resolved \<lparr>res_status = 500,
              res_json = Some (JObj [(''error'', JObj [(''toString'', JNum ''1'')])])\<rparr>),
            c_timeout = 30000\<rparr> (Uint8Array [105, 100]) ''users'' \<lparr>format = None\<rparr>)
         world0
     = Some (Resolved \<lparr>res_status = 500,
              res_json = Some (JObj [(''error'', JObj [(''toString'', JNum ''1'')])])\<rparr>)
   \<and> \<not> ok \<lparr>res_status = 500,
              res_json = Some (JObj [(''error'', JObj [(''toString'', JNum ''1'')])])\<rparr>
   \<and> fst (upload \<lparr>c_baseUrl = ''https://gagara.test'',
            c_fetch = stub_fetch (Resolved \<lparr>res_status = 500,
              res_json = Some (JObj [(''error'', JObj [(''toString'', JNum ''1'')])])\<rparr>),
            c_timeout = 30000\<rparr> (Uint8Array [105, 100]) ''users'' \<lparr>format = None\<rparr> world0)
     = Inl TypeError"
proof -
  let ?r = "\<lparr>res_status = 500,
              res_json = Some (JObj [(''error'', JObj [(''toString'', JNum ''1'')])])\<rparr>"
  let ?c = "\<lparr>c_baseUrl = ''https://gagara.test'', c_fetch = stub_fetch (Resolved ?r),
             c_timeout = 30000\<rparr>"
  let ?up = "upload ?c (Uint8Array [105, 100]) ''users'' \<lparr>format = None\<rparr>"
  have a: "reply (c_fetch ?c) ?up world0 = Some (Resolved ?r)"
    by (simp add: reply_after_call [OF upload_world] stub_fetch_def)
  have b: "\<not> ok ?r"
    by (simp add: ok_def)
  have c: "fst (?up world0) = Inl TypeError"
    unfolding upload_run a
    by (simp add: ok_def upload_error_raised parsed_def)
  from a b c show ?thesis
    by simp
qed



text \<open>
  C7. \<open>health()\<close> never raises: it always returns a boolean. It makes exactly one call
  of the transport, for the base URL followed by \<open>/health\<close> with no method, headers or
  body, and its result is true exactly when that call was answered with a status from 200
  to 299, and false when the transport rejected, the timeout aborted the call, or the
  status was anything else.
\<close>

theorem health_true_iff_2xx:
  "(\<exists>b. fst (health c w) = Inr b)
   \<and> calls (snd (health c w)) =
       calls w @ [(\<lparr>url = c_baseUrl c @ ''/health'',
                     init = \<lparr>req_method = None, req_headers = None, req_body = None\<rparr>,
                     signal = next_id w\<rparr>,
                   timers w @ [(next_id w, c_timeout c)])]
   \<and> reply (c_fetch c) (health c) w =
       Some (c_fetch c \<lparr>url = c_baseUrl c @ ''/health'',
                         init = \<lparr>req_method = None, req_headers = None, req_body = None\<rparr>,
                         signal = next_id w\<rparr>)
   \<and> (fst (health c w) = Inr True) =
       (\<exists>r. reply (c_fetch c) (health c) w = Some (Resolved r)
            \<and> 200 \<le> res_status r \<and> res_status r < 300)
   \<and> (fst (health c w) = Inr False) =
       (reply (c_fetch c) (health c) w = Some Aborted
        \<or> (\<exists>reason. reply (c_fetch c) (health c) w = Some (Rejected reason))
        \<or> (\<exists>r. reply (c_fetch c) (health c) w = Some (Resolved r)
                \<and> (res_status r < 200 \<or> 300 \<le> res_status r)))"
proof -
  have total: "\<exists>b. fst (health c w) = Inr b"
    by (simp add: health_run)
  have log: "calls (snd (health c w)) =
       calls w @ [(\<lparr>url = c_baseUrl c @ ''/health'',
                     init = \<lparr>req_method = None, req_headers = None, req_body = None\<rparr>,
                     signal = next_id w\<rparr>,
                   timers w @ [(next_id w, c_timeout c)])]"
    by (simp add: health_world after_call_def sent_def spread_init_def)
  have rep: "reply (c_fetch c) (health c) w =
       Some (c_fetch c \<lparr>url = c_baseUrl c @ ''/health'',
                         init = \<lparr>req_method = None, req_headers = None, req_body = None\<rparr>,
                         signal = next_id w\<rparr>)"
    by (simp add: reply_after_call [OF health_world] sent_def spread_init_def)
  have yes: "(fst (health c w) = Inr True) =
       (\<exists>r. reply (c_fetch c) (health c) w = Some (Resolved r)
            \<and> 200 \<le> res_status r \<and> res_status r < 300)"
    by (auto simp add: health_run ok_def split: option.splits fetch_outcome.splits)
  have no: "(fst (health c w) = Inr False) =
       (reply (c_fetch c) (health c) w = Some Aborted
        \<or> (\<exists>reason. reply (c_fetch c) (health c) w = Some (Rejected reason))
        \<or> (\<exists>r. reply (c_fetch c) (health c) w = Some (Resolved r)
                \<and> (res_status r < 200 \<or> 300 \<le> res_status r)))"
    unfolding rep
    by (cases "c_fetch c \<lparr>url = c_baseUrl c @ ''/health'',
                         init = \<lparr>req_method = None, req_headers = None, req_body = None\<rparr>,
                         signal = next_id w\<rparr>")
       (auto simp add: health_run rep ok_def)
  from total log rep yes no show ?thesis
    by (intro conjI)
qed

text \<open>
  C8. \<open>fromToken(t)\<close> returns a handle whose token is the string \<open>t\<close> and leaves the world
  as it found it: the transport log has no new entry and no timer was armed.
\<close>

theorem fromToken_local:
  "fst (fromToken c t w) = Inr (Dataset_new (JStr t) (c_baseUrl c) (c_fetch c) (c_timeout c))
   \<and> token (Dataset_new (JStr t) (c_baseUrl c) (c_fetch c) (c_timeout c)) = JStr t
   \<and> calls (snd (fromToken c t w)) = calls w
   \<and> snd (fromToken c t w) = w"
  by (simp add: fromToken_def return_def Dataset_new_def)

text \<open>
  C9. Both \<open>#request\<close> methods, upload and health invoke the transport once, with the
  timer of the call's signal armed (pending, with the configured delay) at that moment,
  and leave exactly the timers that were pending before the call, however the transport
  ends the call: response, rejection or abort. So does every operation of a handle whose
  token converts to a string; on a handle whose token does not, the operation throws
  while it builds the request, before any timer is armed, and leaves the world untouched.
  In every case the timers pending after the call are those pending before.
\<close>

theorem timer_disarmed_on_every_path:
  "wf_world w \<Longrightarrow>
     timer_scoped (c_timeout c) (client_request c path i) w
   \<and> timer_scoped (d_timeout ds) (dataset_request ds path i) w
   \<and> timer_scoped (c_timeout c) (upload c data nm options) w
   \<and> timer_scoped (c_timeout c) (health c) w
   \<and> (if convertible (token ds) then timer_scoped (d_timeout ds) (query ds sql) w
       else snd (query ds sql w) = w)
   \<and> (if convertible (token ds) then timer_scoped (d_timeout ds) (queryFull ds sql) w
       else snd (queryFull ds sql w) = w)
   \<and> (if convertible (token ds) then timer_scoped (d_timeout ds) (schema ds) w
       else snd (schema ds w) = w)
   \<and> (if convertible (token ds) then timer_scoped (d_timeout ds) (meta ds) w
       else snd (meta ds w) = w)
   \<and> (if convertible (token ds) then timer_scoped (d_timeout ds) (isPresent ds) w
       else snd (isPresent ds w) = w)
   \<and> (if convertible (token ds) then timer_scoped (d_timeout ds) (rename ds newName) w
       else snd (rename ds newName w) = w)
   \<and> (if convertible (token ds) then timer_scoped (d_timeout ds) (delete ds) w
       else snd (delete ds w) = w)
   \<and> timers (snd (query ds sql w)) = timers w
   \<and> timers (snd (queryFull ds sql w)) = timers w
   \<and> timers (snd (schema ds w)) = timers w
   \<and> timers (snd (meta ds w)) = timers w
   \<and> timers (snd (isPresent ds w)) = timers w
   \<and> timers (snd (rename ds newName w)) = timers w
   \<and> timers (snd (delete ds w)) = timers w"
proof -
  assume wf: "wf_world w"
  have cr: "timer_scoped (c_timeout c) (client_request c path i) w"
    by (rule after_call_scoped [OF wf]) (simp add: client_request_run)
  have dr: "timer_scoped (d_timeout ds) (dataset_request ds path i) w"
    by (rule after_call_scoped [OF wf]) (simp add: dataset_request_run)
  have up: "timer_scoped (c_timeout c) (upload c data nm options) w"
    by (rule after_call_scoped [OF wf]) (rule upload_world)
  have he: "timer_scoped (c_timeout c) (health c) w"
    by (rule after_call_scoped [OF wf]) (rule health_world)
  have qu: "(if convertible (token ds) then timer_scoped (d_timeout ds) (query ds sql) w
       else snd (query ds sql w) = w) \<and> timers (snd (query ds sql w)) = timers w"
    by (rule scoped_or_untouched [OF wf]) (rule query_world)
  have qf: "(if convertible (token ds) then timer_scoped (d_timeout ds) (queryFull ds sql) w
       else snd (queryFull ds sql w) = w) \<and> timers (snd (queryFull ds sql w)) = timers w"
    by (rule scoped_or_untouched [OF wf]) (rule queryFull_world)
  have sc: "(if convertible (token ds) then timer_scoped (d_timeout ds) (schema ds) w
       else snd (schema ds w) = w) \<and> timers (snd (schema ds w)) = timers w"
    by (rule scoped_or_untouched [OF wf]) (rule schema_world)
  have me: "(if convertible (token ds) then timer_scoped (d_timeout ds) (meta ds) w
       else snd (meta ds w) = w) \<and> timers (snd (meta ds w)) = timers w"
    by (rule scoped_or_untouched [OF wf]) (rule meta_world)
  have ip: "(if convertible (token ds) then timer_scoped (d_timeout ds) (isPresent ds) w
       else snd (isPresent ds w) = w) \<and> timers (snd (isPresent ds w)) = timers w"
    by (rule scoped_or_untouched [OF wf]) (rule isPresent_world)
  have rn: "(if convertible (token ds) then timer_scoped (d_timeout ds) (rename ds newName) w
       else snd (rename ds newName w) = w) \<and> timers (snd (rename ds newName w)) = timers w"
    by (rule scoped_or_untouched [OF wf]) (rule rename_world)
  have de: "(if convertible (token ds) then timer_scoped (d_timeout ds) (delete ds) w
       else snd (delete ds w) = w) \<and> timers (snd (delete ds w)) = timers w"
    by (rule scoped_or_untouched [OF wf]) (rule delete_world)
  from cr dr up he qu qf sc me ip rn de show ?thesis
    by simp
qed

theorem timer_disarmed_on_every_path_witness:
  "wf_world \<lparr>timers = [(3, 1000)], next_id = 7, calls = []\<rparr>
   \<and> convertible (token (Dataset_new (JStr ''t'') ''https://gagara.test'' (stub_fetch Aborted) 5000))
   \<and> timer_scoped 5000
        (query (Dataset_new (JStr ''t'') ''https://gagara.test'' (stub_fetch Aborted) 5000)
           ''SELECT 1'')
        \<lparr>timers = [(3, 1000)], next_id = 7, calls = []\<rparr>
   \<and> timers (snd (query (Dataset_new (JStr ''t'') ''https://gagara.test''
                (stub_fetch Aborted) 5000) ''SELECT 1''
              \<lparr>timers = [(3, 1000)], next_id = 7, calls = []\<rparr>)) = [(3, 1000)]
   \<and> timers (snd (delete (Dataset_new (JStr ''t'') ''https://gagara.test''
                (stub_fetch (Rejected ''Network error'')) 5000)
              \<lparr>timers = [(3, 1000)], next_id = 7, calls = []\<rparr>)) = [(3, 1000)]"
proof -
  let ?w = "\<lparr>timers = [(3, 1000)], next_id = 7, calls = []\<rparr>"
  let ?ds = "Dataset_new (JStr ''t'') ''https://gagara.test'' (stub_fetch Aborted) 5000"
  let ?ds' = "Dataset_new (JStr ''t'') ''https://gagara.test''
                (stub_fetch (Rejected ''Network error'')) 5000"
  have wf: "wf_world ?w"
    by (simp add: wf_world_def)
  have t: "d_timeout ?ds = 5000" "d_timeout ?ds' = 5000"
    by (simp_all add: Dataset_new_def)
  have cv: "convertible (token ?ds)" "convertible (token ?ds')"
    by (simp_all add: Dataset_new_def convertible_def)
  have q: "timer_scoped 5000 (query ?ds ''SELECT 1'') ?w"
    using timer_disarmed_on_every_path [OF wf, where ds = ?ds and sql = "''SELECT 1''"]
    by (simp only: t cv if_True)
  have d: "timer_scoped 5000 (delete ?ds') ?w"
    using timer_disarmed_on_every_path [OF wf, where ds = ?ds']
    by (simp only: t cv if_True)
  from wf cv q d show ?thesis
    by (simp add: timer_scoped_def Let_def)
qed

text \<open>
  C10. A not-found error raised by query, queryFull, schema, meta, isPresent, rename or
  delete is always the same object: status 404, message \<open>Dataset not found: \<close> followed
  by the handle's token, and no body. Upload never raises one. For query and queryFull
  this holds for every 404 response, whatever body it carried.
\<close>

theorem not_found_error_shape:
  "(fst (query ds sql w) = Inl (Thrown e) \<and> instanceof e DatasetNotFoundErrorC
      \<or> fst (queryFull ds sql w) = Inl (Thrown e) \<and> instanceof e DatasetNotFoundErrorC
      \<or> fst (schema ds w) = Inl (Thrown e) \<and> instanceof e DatasetNotFoundErrorC
      \<or> fst (meta ds w) = Inl (Thrown e) \<and> instanceof e DatasetNotFoundErrorC
      \<or> fst (isPresent ds w) = Inl (Thrown e) \<and> instanceof e DatasetNotFoundErrorC
      \<or> fst (rename ds newName w) = Inl (Thrown e) \<and> instanceof e DatasetNotFoundErrorC
      \<or> fst (delete ds w) = Inl (Thrown e) \<and> instanceof e DatasetNotFoundErrorC
    \<longrightarrow> (\<exists>t. ToString (token ds) = Inr t
           \<and> e = \<lparr>cls = DatasetNotFoundErrorC, name = ''DatasetNotFoundError'',
                  message = ''Dataset not found: '' @ t, status = 404, body = JUndefined\<rparr>))
   \<and> (fst (upload c data nm options w) = Inl (Thrown e) \<longrightarrow>
        \<not> instanceof e DatasetNotFoundErrorC)
   \<and> (reply (d_fetch ds) (query ds sql) w = Some (Resolved r) \<and> res_status r = 404 \<longrightarrow>
        (\<exists>t. ToString (token ds) = Inr t
           \<and> fst (query ds sql w) =
               Inl (Thrown \<lparr>cls = DatasetNotFoundErrorC, name = ''DatasetNotFoundError'',
                      message = ''Dataset not found: '' @ t, status = 404,
                      body = JUndefined\<rparr>)))
   \<and> (reply (d_fetch ds) (queryFull ds sql) w = Some (Resolved r) \<and> res_status r = 404 \<longrightarrow>
        (\<exists>t. ToString (token ds) = Inr t
           \<and> fst (queryFull ds sql w) =
               Inl (Thrown \<lparr>cls = DatasetNotFoundErrorC, name = ''DatasetNotFoundError'',
                      message = ''Dataset not found: '' @ t, status = 404,
                      body = JUndefined\<rparr>)))"
proof -
  let ?shape = "\<exists>t. ToString (token ds) = Inr t
           \<and> e = \<lparr>cls = DatasetNotFoundErrorC, name = ''DatasetNotFoundError'',
                  message = ''Dataset not found: '' @ t, status = 404, body = JUndefined\<rparr>"
  have raised: "?shape" if r: "raise (DatasetNotFoundError_new (token ds)) = Inl (Thrown e)"
  proof (cases "ToString (token ds)")
    case (Inl x)
    with r show ?thesis
      by (auto simp add: DatasetNotFoundError_new_def and_then_def raise_def
            dest: ToString_fails)
  next
    case (Inr t)
    with r show ?thesis
      by (auto simp add: not_found_raised)
  qed
  have other: "raise (QueryError_new a bd) = Inl (Thrown e) \<Longrightarrow> cls e = QueryErrorC"
    "raise (GagaraError_new a st bd) = Inl (Thrown e) \<Longrightarrow> cls e = GagaraErrorC" for a bd st
    by (auto simp add: QueryError_new_def GagaraError_new_def and_then_def raise_def
          split: sum.splits dest: Error_message_fails)
  have q: "fst (query ds sql w) = Inl (Thrown e) \<and> instanceof e DatasetNotFoundErrorC \<longrightarrow> ?shape"
    by (auto simp add: query_run dest: raised other
          split: option.splits fetch_outcome.splits if_splits)
  have qf: "fst (queryFull ds sql w) = Inl (Thrown e) \<and> instanceof e DatasetNotFoundErrorC
      \<longrightarrow> ?shape"
    by (auto simp add: queryFull_run dest: raised other
          split: option.splits fetch_outcome.splits if_splits)
  have s: "fst (schema ds w) = Inl (Thrown e) \<and> instanceof e DatasetNotFoundErrorC \<longrightarrow> ?shape"
    by (auto simp add: schema_run dest: raised other
          split: option.splits fetch_outcome.splits if_splits)
  have m: "fst (meta ds w) = Inl (Thrown e) \<and> instanceof e DatasetNotFoundErrorC \<longrightarrow> ?shape"
    by (auto simp add: meta_run dest: raised other
          split: option.splits fetch_outcome.splits if_splits)
  have p: "\<not> (fst (isPresent ds w) = Inl (Thrown e) \<and> instanceof e DatasetNotFoundErrorC)"
    by (auto simp add: isPresent_run dest: other
          split: option.splits fetch_outcome.splits if_splits)
  have rn: "fst (rename ds newName w) = Inl (Thrown e) \<and> instanceof e DatasetNotFoundErrorC
      \<longrightarrow> ?shape"
    by (auto simp add: rename_run dest: raised other
          split: option.splits fetch_outcome.splits if_splits)
  have d: "fst (delete ds w) = Inl (Thrown e) \<and> instanceof e DatasetNotFoundErrorC \<longrightarrow> ?shape"
    by (auto simp add: delete_run dest: raised other
          split: option.splits fetch_outcome.splits if_splits)
  have u: "fst (upload c data nm options w) = Inl (Thrown e) \<longrightarrow>
        \<not> instanceof e DatasetNotFoundErrorC"
    by (auto simp add: upload_run dest: other
          split: option.splits fetch_outcome.splits if_splits)
  have q404: "reply (d_fetch ds) (query ds sql) w = Some (Resolved r) \<and> res_status r = 404 \<longrightarrow>
        (\<exists>t. ToString (token ds) = Inr t
           \<and> fst (query ds sql w) =
               Inl (Thrown \<lparr>cls = DatasetNotFoundErrorC, name = ''DatasetNotFoundError'',
                      message = ''Dataset not found: '' @ t, status = 404,
                      body = JUndefined\<rparr>))"
    by (auto dest!: query_replied simp add: query_run ok_def not_found_raised)
  have qf404: "reply (d_fetch ds) (queryFull ds sql) w = Some (Resolved r) \<and> res_status r = 404
      \<longrightarrow> (\<exists>t. ToString (token ds) = Inr t
           \<and> fst (queryFull ds sql w) =
               Inl (Thrown \<lparr>cls = DatasetNotFoundErrorC, name = ''DatasetNotFoundError'',
                      message = ''Dataset not found: '' @ t, status = 404,
                      body = JUndefined\<rparr>))"
    by (auto dest!: queryFull_replied simp add: queryFull_run ok_def not_found_raised)
  from q qf s m p rn d u q404 qf404 show ?thesis
    by blast
qed

theorem not_found_error_shape_witness:
  "reply (d_fetch (Dataset_new (JStr ''missing'') ''https://gagara.test''
          (stub_fetch (Resolved \<lparr>res_status = 404,
             res_json = Some (JObj [(''error'', JStr ''unknown token'')])\<rparr>)) 30000))
        (query (Dataset_new (JStr ''missing'') ''https://gagara.test''
          (stub_fetch (Resolved \<lparr>res_status = 404,
             res_json = Some (JObj [(''error'', JStr ''unknown token'')])\<rparr>)) 30000)
          ''SELECT 1'') world0
     = Some (Resolved \<lparr>res_status = 404,
         res_json = Some (JObj [(''error'', JStr ''unknown token'')])\<rparr>)
   \<and> fst (query (Dataset_new (JStr ''missing'') ''https://gagara.test''
          (stub_fetch (Resolved \<lparr>res_status = 404,
             res_json = Some (JObj [(''error'', JStr ''unknown token'')])\<rparr>)) 30000)
          ''SELECT 1'' world0)
     = Inl (Thrown \<lparr>cls = DatasetNotFoundErrorC, name = ''DatasetNotFoundError'',
              message = ''Dataset not found: missing'', status = 404, body = JUndefined\<rparr>)"
proof -
  let ?r = "\<lparr>res_status = 404, res_json = Some (JObj [(''error'', JStr ''unknown token'')])\<rparr>"
  let ?ds = "Dataset_new (JStr ''missing'') ''https://gagara.test'' (stub_fetch (Resolved ?r)) 30000"
  have t: "ToString (token ?ds) = Inr ''missing''"
    by (simp add: Dataset_new_def)
  have a: "reply (d_fetch ?ds) (query ?ds ''SELECT 1'') world0 = Some (Resolved ?r)"
    by (simp add: reply_cases [OF query_world] t) (simp add: stub_fetch_def Dataset_new_def)
  have s: "res_status ?r = 404"
    by simp
  have "reply (d_fetch ?ds) (query ?ds ''SELECT 1'') world0 = Some (Resolved ?r)
          \<and> res_status ?r = 404 \<longrightarrow>
        (\<exists>t. ToString (token ?ds) = Inr t
           \<and> fst (query ?ds ''SELECT 1'' world0) =
               Inl (Thrown \<lparr>cls = DatasetNotFoundErrorC, name = ''DatasetNotFoundError'',
                      message = ''Dataset not found: '' @ t, status = 404,
                      body = JUndefined\<rparr>))"
    by (rule not_found_error_shape [THEN conjunct2, THEN conjunct2, THEN conjunct1])
  with a s have "\<exists>t. ToString (token ?ds) = Inr t
           \<and> fst (query ?ds ''SELECT 1'' world0) =
               Inl (Thrown \<lparr>cls = DatasetNotFoundErrorC, name = ''DatasetNotFoundError'',
                      message = ''Dataset not found: '' @ t, status = 404,
                      body = JUndefined\<rparr>)"
    by blast
  with t have "fst (query ?ds ''SELECT 1'' world0) =
               Inl (Thrown \<lparr>cls = DatasetNotFoundErrorC, name = ''DatasetNotFoundError'',
                      message = ''Dataset not found: '' @ ''missing'', status = 404,
                      body = JUndefined\<rparr>)"
    by auto
  with a show ?thesis
    by simp
qed

end
